theory Spec2Isabelle
  imports Main "HOL-Library.Word"
begin

section \<open>Exceptions\<close>

text \<open>
  Every exception the modelled code can raise is a value of \<open>error\<close>; a function that
  can raise returns \<open>error + 'a\<close> with \<open>Inl\<close> for the exception. \<open>PTPError\<close> and
  \<open>PTPUnimplemented\<close> are the two classes of \<^verbatim>\<open>ptp.py\<close>; the others are the
  exceptions of the construct library and of Python that the codecs can raise.
  \<open>Exception\<close> stands for any other exception (of a transport or of a caller's body),
  identified by a label.
\<close>

datatype error =
    PTPError string
  | PTPUnimplemented string
  | FieldError
  | ArrayError nat nat
  | BitIntegerError
  | UnicodeError
  | TypeError
  | Exception string

section \<open>Containers\<close>

text \<open>
  A Python value that may stand in a code field: a symbolic name (\<^verbatim>\<open>'OpenSession'\<close>)
  or a number.
\<close>

datatype pyval = Str string | Num int

text \<open>
  The \<^verbatim>\<open>Container\<close> of a frame: the code field (keyed \<^verbatim>\<open>OperationCode\<close>,
  \<^verbatim>\<open>ResponseCode\<close> or \<^verbatim>\<open>EventCode\<close> by the frame's kind), \<^verbatim>\<open>SessionID\<close>,
  \<^verbatim>\<open>TransactionID\<close> and the list \<^verbatim>\<open>Parameter\<close>. Python integers are unbounded.
\<close>

record Container =
  Code :: pyval
  SessionID :: int
  TransactionID :: int
  Parameter :: "int list"

section \<open>The session and transaction state of \<open>PTPDevice\<close>\<close>

text \<open>
  The two private counters of the class (\<^verbatim>\<open>__session\<close>, \<^verbatim>\<open>__transaction_id\<close>, both 0
  in a fresh object) and the state of the transport the subclass supplies. The transport
  primitive \<^verbatim>\<open>mesg\<close> is a parameter of the operations below: it takes the container and
  the transport's state and returns a response or raises. The field \<open>calls\<close> is a
  history variable, not a field of the class: \<open>open_session\<close> and \<open>close_session\<close>
  append their own name to it when they are entered, so that a theorem can count them.
\<close>

datatype call = Call_open_session | Call_close_session

record 't PTPDevice =
  private_session :: int
  private_transaction_id :: int
  transport :: 't
  calls :: "call list"

type_synonym ('t, 'r) mesg = "Container \<Rightarrow> 't \<Rightarrow> (error + 'r) \<times> 't"

text \<open>The getter of the property \<^verbatim>\<open>__transaction\<close> (ptp.py, lines 389 to 396).\<close>

definition transaction_get :: "'t PTPDevice \<Rightarrow> int \<times> 't PTPDevice" where
  "transaction_get d =
     (let current_id = private_transaction_id d;
          d1 = d\<lparr>private_transaction_id := private_transaction_id d + 1\<rparr>;
          d2 = (if private_transaction_id d1 > 0xFFFFFFFE
                then d1\<lparr>private_transaction_id := 1\<rparr> else d1)
      in (current_id, d2))"

text \<open>The setter of \<^verbatim>\<open>__transaction\<close> (lines 398 to 406): only a reset is accepted.\<close>

definition transaction_set :: "int \<Rightarrow> 't PTPDevice \<Rightarrow> error + 't PTPDevice" where
  "transaction_set v d =
     (if v \<noteq> 0 then Inl (PTPError ''Current TransactionID should not be set. Only reset.'')
      else Inr (d\<lparr>private_transaction_id := 0\<rparr>))"

text \<open>\<open>produce n\<close>: n successive reads of the property, oldest first.\<close>

fun produce :: "nat \<Rightarrow> 't PTPDevice \<Rightarrow> int list \<times> 't PTPDevice" where
  "produce 0 d = ([], d)"
| "produce (Suc n) d =
     (case transaction_get d of (v, d1) \<Rightarrow>
        (case produce n d1 of (vs, d2) \<Rightarrow> (v # vs, d2)))"

text \<open>The property \<^verbatim>\<open>session_id\<close> (lines 436 to 444): the setter's body is \<^verbatim>\<open>pass\<close>.\<close>

definition session_id :: "'t PTPDevice \<Rightarrow> int" where
  "session_id d = private_session d"

definition session_id_set :: "'v \<Rightarrow> 't PTPDevice \<Rightarrow> error + 't PTPDevice" where
  "session_id_set v d = Inr d"

text \<open>
  \<^verbatim>\<open>mesg\<close> of the base class (lines 425 to 429) raises; a transport overrides it.
\<close>

definition mesg_unimplemented :: "('t, 'r) mesg" where
  "mesg_unimplemented ptp_container t =
     (Inl (PTPUnimplemented ''Please implement PTP no-dataphase command for this transport.''), t)"

text \<open>\<^verbatim>\<open>open_session\<close> (lines 463 to 475).\<close>

definition open_session :: "('t, 'r) mesg \<Rightarrow> 't PTPDevice \<Rightarrow> (error + 'r) \<times> 't PTPDevice" where
  "open_session mesg d0 =
     (let d = d0\<lparr>calls := calls d0 @ [Call_open_session]\<rparr>;
          d1 = d\<lparr>private_session := private_session d + 1\<rparr>
      in case transaction_set 0 d1 of
           Inl e \<Rightarrow> (Inl e, d1)
         | Inr d2 \<Rightarrow>
            (case transaction_get d2 of (tid, d3) \<Rightarrow>
               (let ptp = \<lparr>Code = Str ''OpenSession'', SessionID = 0, TransactionID = tid,
                           Parameter = [private_session d3, 0, 0, 0, 0]\<rparr>
                in case mesg ptp (transport d3) of
                     (response, t) \<Rightarrow> (response, d3\<lparr>transport := t\<rparr>))))"

text \<open>\<^verbatim>\<open>close_session\<close> (lines 477 to 485).\<close>

definition close_session :: "('t, 'r) mesg \<Rightarrow> 't PTPDevice \<Rightarrow> (error + 'r) \<times> 't PTPDevice" where
  "close_session mesg d0 =
     (let d = d0\<lparr>calls := calls d0 @ [Call_close_session]\<rparr>
      in case transaction_get d of (tid, d1) \<Rightarrow>
           (let ptp = \<lparr>Code = Str ''CloseSession'', SessionID = private_session d,
                       TransactionID = tid, Parameter = [0, 0, 0, 0, 0]\<rparr>
            in case mesg ptp (transport d1) of
                 (response, t) \<Rightarrow> (response, d1\<lparr>transport := t\<rparr>)))"

text \<open>
  How the body of a \<^verbatim>\<open>with\<close> statement ends: it runs to its end, it leaves early
  (\<^verbatim>\<open>return\<close>, \<^verbatim>\<open>break\<close>, \<^verbatim>\<open>continue\<close>; the label says which and with what), or it
  raises. The same type is the outcome of the whole \<^verbatim>\<open>with\<close> statement.
\<close>

datatype 'a exit = Completed | Returned 'a | Raised error

text \<open>
  The \<^verbatim>\<open>finally\<close> clause of \<^verbatim>\<open>session\<close>: \<^verbatim>\<open>close_session\<close> runs whatever the pending
  outcome is; when it raises, its exception replaces the pending outcome, otherwise the
  pending outcome goes on.
\<close>

definition finally_close_session ::
    "('t, 'r) mesg \<Rightarrow> 'a exit \<Rightarrow> 't PTPDevice \<Rightarrow> 'a exit \<times> 't PTPDevice" where
  "finally_close_session mesg pending d =
     (case close_session mesg d of
        (Inl e, d1) \<Rightarrow> (Raised e, d1)
      | (Inr response, d1) \<Rightarrow> (pending, d1))"

text \<open>
  \<^verbatim>\<open>with ptp.session(): body\<close> (lines 446 to 461, under \<^verbatim>\<open>contextlib.contextmanager\<close>):
  entering the statement runs the generator to its \<^verbatim>\<open>yield\<close>, so \<^verbatim>\<open>open_session\<close> is
  called inside the \<^verbatim>\<open>try\<close>; when it raises, the \<^verbatim>\<open>finally\<close> clause runs and the body
  never does. Otherwise the body runs, and leaving it, in whichever way, resumes the
  generator at the \<^verbatim>\<open>yield\<close>, which runs the \<^verbatim>\<open>finally\<close> clause.
\<close>

definition session ::
    "('t, 'r) mesg \<Rightarrow> ('t PTPDevice \<Rightarrow> 'a exit \<times> 't PTPDevice) \<Rightarrow> 't PTPDevice
       \<Rightarrow> 'a exit \<times> 't PTPDevice" where
  "session mesg body d =
     (case open_session mesg d of
        (Inl e, d1) \<Rightarrow> finally_close_session mesg (Raised e) d1
      | (Inr response, d1) \<Rightarrow>
          (case body d1 of (out, d2) \<Rightarrow> finally_close_session mesg out d2))"

text \<open>
  Two transport doubles for concrete runs. Both keep the containers they are sent;
  \<open>mesg_recording\<close> answers every one with the same response, \<open>mesg_failing_close\<close>
  raises on \<^verbatim>\<open>CloseSession\<close>.
\<close>

definition mesg_recording :: "(Container list, string) mesg" where
  "mesg_recording ptp_container t = (Inr ''OK'', t @ [ptp_container])"

definition mesg_failing_close :: "(Container list, string) mesg" where
  "mesg_failing_close ptp_container t =
     (if Code ptp_container = Str ''CloseSession''
      then (Inl (Exception ''transport''), t @ [ptp_container])
      else (Inr ''OK'', t @ [ptp_container]))"

definition fresh_device :: "Container list PTPDevice" where
  "fresh_device = \<lparr>private_session = 0, private_transaction_id = 0, transport = [], calls = []\<rparr>"

section \<open>Byte order\<close>

text \<open>
  The codecs of \<^verbatim>\<open>ptp.py\<close> are built from the combinators of the construct library
  (version 2.5: \<^verbatim>\<open>ULInt16\<close>, \<^verbatim>\<open>Enum\<close>, \<^verbatim>\<open>BitField\<close>, \<^verbatim>\<open>Array\<close>, \<^verbatim>\<open>Struct\<close>,
  \<^verbatim>\<open>PascalString\<close>), which the repository imports and does not contain. Each
  combinator is modelled below by what the library's class does on \<^verbatim>\<open>parse\<close> and on
  \<^verbatim>\<open>build\<close>; the text before each definition names the class. A stream is the list of
  bytes still to be read: a parser returns the value and the rest of the stream.
\<close>

type_synonym byte = "8 word"

text \<open>
  The byte order a field is declared with (the format characters \<^verbatim>\<open><\<close>, \<^verbatim>\<open>>\<close> and
  \<^verbatim>\<open>=\<close> of Python's \<^verbatim>\<open>struct\<close>), and the byte order of the machine, which decides what
  native means.
\<close>

datatype endian = Little | Big | Native

datatype byteorder = LSB_first | MSB_first

fun resolve :: "byteorder \<Rightarrow> endian \<Rightarrow> byteorder" where
  "resolve host Little = LSB_first"
| "resolve host Big = MSB_first"
| "resolve host Native = host"

text \<open>\<^verbatim>\<open>switch_endian\<close> (ptp.py, lines 44 to 51).\<close>

definition switch_endian :: "bool \<Rightarrow> bool \<Rightarrow> 'a \<Rightarrow> 'a \<Rightarrow> 'a \<Rightarrow> error + 'a" where
  "switch_endian le be l b n =
     (if be \<noteq> le then Inr (if le then l else b)
      else if le then Inl (PTPError ''Cannot be both little and big endian...'')
      else Inr n)"

definition bind_error :: "error + 'a \<Rightarrow> ('a \<Rightarrow> error + 'b) \<Rightarrow> error + 'b" where
  "bind_error r f = (case r of Inl e \<Rightarrow> Inl e | Inr x \<Rightarrow> f x)"

section \<open>Fixed-width integers\<close>

text \<open>
  construct's \<^verbatim>\<open>FormatField\<close>: an unsigned integer of \<open>k\<close> bytes in a declared byte
  order, packed and unpacked with \<^verbatim>\<open>struct\<close>. \<^verbatim>\<open>ULInt16\<close> is
  \<^verbatim>\<open>FormatField(name, "<", "H")\<close>, and so on; the field's name is left out.
\<close>

datatype format_field = FormatField endian nat

definition ULInt8 :: format_field where "ULInt8 = FormatField Little 1"
definition UBInt8 :: format_field where "UBInt8 = FormatField Big 1"
definition UNInt8 :: format_field where "UNInt8 = FormatField Native 1"
definition ULInt16 :: format_field where "ULInt16 = FormatField Little 2"
definition UBInt16 :: format_field where "UBInt16 = FormatField Big 2"
definition UNInt16 :: format_field where "UNInt16 = FormatField Native 2"
definition ULInt32 :: format_field where "ULInt32 = FormatField Little 4"
definition UBInt32 :: format_field where "UBInt32 = FormatField Big 4"
definition UNInt32 :: format_field where "UNInt32 = FormatField Native 4"

fun le_bytes :: "nat \<Rightarrow> int \<Rightarrow> byte list" where
  "le_bytes 0 n = []"
| "le_bytes (Suc k) n = word_of_int (n mod 256) # le_bytes k (n div 256)"

fun le_int :: "byte list \<Rightarrow> int" where
  "le_int [] = 0"
| "le_int (b # bs) = uint b + 256 * le_int bs"

definition pack :: "byteorder \<Rightarrow> nat \<Rightarrow> int \<Rightarrow> byte list" where
  "pack order k n = (case order of LSB_first \<Rightarrow> le_bytes k n | MSB_first \<Rightarrow> rev (le_bytes k n))"

definition unpack :: "byteorder \<Rightarrow> byte list \<Rightarrow> int" where
  "unpack order bs = (case order of LSB_first \<Rightarrow> le_int bs | MSB_first \<Rightarrow> le_int (rev bs))"

text \<open>
  \<^verbatim>\<open>FormatField._build\<close>: \<^verbatim>\<open>struct.pack\<close> refuses a value that is not an integer or
  does not fit the width, and the field raises \<^verbatim>\<open>FieldError\<close> for it.
  \<^verbatim>\<open>FormatField._parse\<close>: \<^verbatim>\<open>FieldError\<close> when the stream is shorter than the field.
\<close>

fun FormatField_build :: "byteorder \<Rightarrow> format_field \<Rightarrow> pyval \<Rightarrow> error + byte list" where
  "FormatField_build host (FormatField e k) (Str s) = Inl FieldError"
| "FormatField_build host (FormatField e k) (Num n) =
     (if 0 \<le> n \<and> n < 256 ^ k then Inr (pack (resolve host e) k n) else Inl FieldError)"

fun FormatField_parse :: "byteorder \<Rightarrow> format_field \<Rightarrow> byte list \<Rightarrow> error + int \<times> byte list" where
  "FormatField_parse host (FormatField e k) stream =
     (if length stream < k then Inl FieldError
      else Inr (unpack (resolve host e) (take k stream), drop k stream))"

section \<open>Code tables\<close>

text \<open>
  construct's \<^verbatim>\<open>Enum(subcon, _default_=Pass, **names)\<close> is a \<^verbatim>\<open>MappingAdapter\<close> over the
  integer field: the encoding dictionary maps a name to its code, the decoding
  dictionary is its reverse (built by \<^verbatim>\<open>dict((v, k) for k, v in mapping.items())\<close>, so
  of two names with one code the later one stays), and with the default \<^verbatim>\<open>Pass\<close> a
  value that is not a key of the dictionary goes through unchanged, in both directions.
  All five tables of \<^verbatim>\<open>ptp.py\<close> set \<^verbatim>\<open>_default_=Pass\<close>.
\<close>

datatype enum_con = Enum format_field "(string \<times> int) list"

fun subcon :: "enum_con \<Rightarrow> format_field" where
  "subcon (Enum sc m) = sc"

fun mapping :: "enum_con \<Rightarrow> (string \<times> int) list" where
  "mapping (Enum sc m) = m"

fun MappingAdapter_encode :: "(string \<times> int) list \<Rightarrow> pyval \<Rightarrow> pyval" where
  "MappingAdapter_encode m (Str s) = (case map_of m s of Some c \<Rightarrow> Num c | None \<Rightarrow> Str s)"
| "MappingAdapter_encode m (Num n) = Num n"

definition MappingAdapter_decode :: "(string \<times> int) list \<Rightarrow> int \<Rightarrow> pyval" where
  "MappingAdapter_decode m n =
     (case map_of (map (\<lambda>(name, c). (c, name)) (rev m)) n of
        Some name \<Rightarrow> Str name
      | None \<Rightarrow> Num n)"

fun Enum_build :: "byteorder \<Rightarrow> enum_con \<Rightarrow> pyval \<Rightarrow> error + byte list" where
  "Enum_build host (Enum sc m) obj = FormatField_build host sc (MappingAdapter_encode m obj)"

fun Enum_parse :: "byteorder \<Rightarrow> enum_con \<Rightarrow> byte list \<Rightarrow> error + pyval \<times> byte list" where
  "Enum_parse host (Enum sc m) stream =
     bind_error (FormatField_parse host sc stream)
       (\<lambda>(n, rest). Inr (MappingAdapter_decode m n, rest))"

text \<open>
  The call \<^verbatim>\<open>Enum(subcon, _default_=Pass, Undefined=0x1000, ..., **vendor)\<close>: Python
  refuses the call (\<^verbatim>\<open>TypeError\<close>) when a vendor name repeats a keyword written in the
  call or the name of the parameter \<^verbatim>\<open>subcon\<close>, which the call gives by position;
  otherwise the vendor's pairs follow the canonical ones.
\<close>

definition Enum_call ::
    "format_field \<Rightarrow> (string \<times> int) list \<Rightarrow> (string \<times> int) list \<Rightarrow> error + enum_con" where
  "Enum_call sc canonical vendor =
     (if list_ex (\<lambda>(name, c). name \<in> set (map fst canonical) \<or> name = ''_default_''
                              \<or> name = ''subcon'') vendor
      then Inl TypeError
      else Inr (Enum sc (canonical @ vendor)))"

definition OperationCode_names :: "(string \<times> int) list" where
  "OperationCode_names =
    [(''Undefined'', 0x1000), (''GetDeviceInfo'', 0x1001), (''OpenSession'', 0x1002),
     (''CloseSession'', 0x1003), (''GetStorageIDs'', 0x1004), (''GetStorageInfo'', 0x1005),
     (''GetNumObjects'', 0x1006), (''GetObjectHandles'', 0x1007),
     (''GetObjectInfo'', 0x1008), (''GetObject'', 0x1009), (''GetThumb'', 0x100A),
     (''DeleteObject'', 0x100B), (''SendObjectInfo'', 0x100C), (''SendObject'', 0x100D),
     (''InitiateCapture'', 0x100E), (''FormatStore'', 0x100F), (''ResetDevice'', 0x1010),
     (''SelfTest'', 0x1011), (''SetObjectProtection'', 0x1012), (''PowerDown'', 0x1013),
     (''GetDevicePropDesc'', 0x1014), (''GetDevicePropValue'', 0x1015),
     (''SetDevicePropValue'', 0x1016), (''ResetDevicePropValue'', 0x1017),
     (''TerminateOpenCapture'', 0x1018), (''MoveObject'', 0x1019),
     (''CopyObject'', 0x101A), (''GetPartialObject'', 0x101B),
     (''InitiateOpenCapture'', 0x101C), (''StartEnumHandles'', 0x101D),
     (''EnumHandles'', 0x101E), (''StopEnumHandles'', 0x101F),
     (''GetVendorExtensionMapss'', 0x1020), (''GetVendorDeviceInfo'', 0x1021),
     (''GetResizedImageObject'', 0x1022), (''GetFilesystemManifest'', 0x1023),
     (''GetStreamInfo'', 0x1024), (''GetStream'', 0x1025)]"

definition ResponseCode_names :: "(string \<times> int) list" where
  "ResponseCode_names =
    [(''Undefined'', 0x2000), (''OK'', 0x2001), (''GeneralError'', 0x2002),
     (''SessionNotOpen'', 0x2003), (''InvalidTransactionID'', 0x2004),
     (''OperationNotSupported'', 0x2005), (''ParameterNotSupported'', 0x2006),
     (''IncompleteTransfer'', 0x2007), (''InvalidStorageId'', 0x2008),
     (''InvalidObjectHandle'', 0x2009), (''DevicePropNotSupported'', 0x200A),
     (''InvalidObjectFormatCode'', 0x200B), (''StoreFull'', 0x200C),
     (''ObjectWriteProtected'', 0x200D), (''StoreReadOnly'', 0x200E),
     (''AccessDenied'', 0x200F), (''NoThumbnailPresent'', 0x2010),
     (''SelfTestFailed'', 0x2011), (''PartialDeletion'', 0x2012),
     (''StoreNotAvailable'', 0x2013), (''SpecificationByFormatUnsupported'', 0x2014),
     (''NoValidObjectInfo'', 0x2015), (''InvalidCodeFormat'', 0x2016),
     (''UnknownVendorCode'', 0x2017), (''CaptureAlreadyTerminated'', 0x2018),
     (''DeviceBusy'', 0x2019), (''InvalidParentObject'', 0x201A),
     (''InvalidDevicePropFormat'', 0x201B), (''InvalidDevicePropValue'', 0x201C),
     (''InvalidParameter'', 0x201D), (''SessionAlreadyOpened'', 0x201E),
     (''TransactionCanceled'', 0x201F),
     (''SpecificationOfDestinationUnsupported'', 0x2020), (''InvalidEnumHandle'', 0x2021),
     (''NoStreamEnabled'', 0x2022), (''InvalidDataset'', 0x2023)]"

definition EventCode_names :: "(string \<times> int) list" where
  "EventCode_names =
    [(''Undefined'', 0x4000), (''CancelTransaction'', 0x4001), (''ObjectAdded'', 0x4002),
     (''ObjectRemoved'', 0x4003), (''StoreAdded'', 0x4004), (''StoreRemoved'', 0x4005),
     (''DevicePropChanged'', 0x4006), (''ObjectInfoChanged'', 0x4007),
     (''DeviceInfoChanged'', 0x4008), (''RequestObjectTransfer'', 0x4009),
     (''StoreFull'', 0x400A), (''DeviceReset'', 0x400B), (''StorageInfoChanged'', 0x400C),
     (''CaptureComplete'', 0x400D), (''UnreportedStatus'', 0x400E)]"

definition PropertyCode_names :: "(string \<times> int) list" where
  "PropertyCode_names =
    [(''Undefined'', 0x5000), (''BatteryLevel'', 0x5001), (''FunctionalMode'', 0x5002),
     (''ImageSize'', 0x5003), (''CompressionSetting'', 0x5004), (''WhiteBalance'', 0x5005),
     (''RGBGain'', 0x5006), (''FNumber'', 0x5007), (''FocalLength'', 0x5008),
     (''FocusDistance'', 0x5009), (''FocusMode'', 0x500A),
     (''ExposureMeteringMode'', 0x500B), (''FlashMode'', 0x500C),
     (''ExposureTime'', 0x500D), (''ExposureProgramMode'', 0x500E),
     (''ExposureIndex'', 0x500F), (''ExposureBiasCompensation'', 0x5010),
     (''DateTime'', 0x5011), (''CaptureDelay'', 0x5012), (''StillCaptureMode'', 0x5013),
     (''Contrast'', 0x5014), (''Sharpness'', 0x5015), (''DigitalZoom'', 0x5016),
     (''EffectMode'', 0x5017), (''BurstNumber'', 0x5018), (''BurstInterval'', 0x5019),
     (''TimelapseNumber'', 0x501A), (''TimelapseInterval'', 0x501B),
     (''FocusMeteringMode'', 0x501C), (''UploadURL'', 0x501D), (''Artist'', 0x501E),
     (''CopyrightInfo'', 0x501F)]"

definition ObjectFormatCode_names :: "(string \<times> int) list" where
  "ObjectFormatCode_names =
    [(''Undefined'', 0x3000), (''Association'', 0x3001), (''Script'', 0x3002),
     (''Executable'', 0x3003), (''Text'', 0x3004), (''HTML'', 0x3005), (''DPOF'', 0x3006),
     (''AIFF'', 0x3007), (''WAV'', 0x3008), (''MP3'', 0x3009), (''AVI'', 0x300A),
     (''MPEG'', 0x300B), (''ASF'', 0x300C), (''QT'', 0x300D), (''EXIF_JPEG'', 0x3801),
     (''TIFF_EP'', 0x3802), (''FlashPix'', 0x3803), (''BMP'', 0x3804), (''CIFF'', 0x3805),
     (''GIF'', 0x3807), (''JFIF'', 0x3808), (''PCD'', 0x3809), (''PICT'', 0x380A),
     (''PNG'', 0x380B), (''TIFF'', 0x380D), (''TIFF_IT'', 0x380E), (''JP2'', 0x380F),
     (''JPX'', 0x3810), (''DNG'', 0x3811)]"
text \<open>
  The five code tables (lines 82 to 127, 130 to 173, 176 to 198, 235 to 274 and 297 to
  335): the integer field of the chosen byte order, and the canonical names with the
  vendor's added.
\<close>

definition OperationCode :: "bool \<Rightarrow> bool \<Rightarrow> (string \<times> int) list \<Rightarrow> error + enum_con" where
  "OperationCode le be vendor_operations =
     bind_error (switch_endian le be ULInt16 UBInt16 UNInt16)
       (\<lambda>sc. Enum_call sc OperationCode_names vendor_operations)"

definition ResponseCode :: "bool \<Rightarrow> bool \<Rightarrow> (string \<times> int) list \<Rightarrow> error + enum_con" where
  "ResponseCode le be vendor_responses =
     bind_error (switch_endian le be ULInt16 UBInt16 UNInt16)
       (\<lambda>sc. Enum_call sc ResponseCode_names vendor_responses)"

definition EventCode :: "bool \<Rightarrow> bool \<Rightarrow> (string \<times> int) list \<Rightarrow> error + enum_con" where
  "EventCode le be vendor_events =
     bind_error (switch_endian le be ULInt16 UBInt16 UNInt16)
       (\<lambda>sc. Enum_call sc EventCode_names vendor_events)"

definition PropertyCode :: "bool \<Rightarrow> bool \<Rightarrow> (string \<times> int) list \<Rightarrow> error + enum_con" where
  "PropertyCode le be vendor_properties =
     bind_error (switch_endian le be ULInt16 UBInt16 UNInt16)
       (\<lambda>sc. Enum_call sc PropertyCode_names vendor_properties)"

definition ObjectFormatCode :: "bool \<Rightarrow> bool \<Rightarrow> (string \<times> int) list \<Rightarrow> error + enum_con" where
  "ObjectFormatCode le be vendor_object_formats =
     bind_error (switch_endian le be ULInt16 UBInt16 UNInt16)
       (\<lambda>sc. Enum_call sc ObjectFormatCode_names vendor_object_formats)"

section \<open>Session, transaction and parameter fields\<close>

text \<open>
  \<^verbatim>\<open>SessionID\<close>, \<^verbatim>\<open>TransactionID\<close> and \<^verbatim>\<open>Parameter\<close> (lines 59 to 79). The three
  names are also the keys of the container, so the constructors carry the suffix
  \<open>_con\<close> here.
\<close>

definition SessionID_con :: "bool \<Rightarrow> bool \<Rightarrow> error + format_field" where
  "SessionID_con le be = switch_endian le be ULInt32 UBInt32 UNInt32"

definition TransactionID_con :: "bool \<Rightarrow> bool \<Rightarrow> error + format_field" where
  "TransactionID_con le be = switch_endian le be ULInt32 UBInt32 UNInt32"

text \<open>
  construct's \<^verbatim>\<open>BitField(name, length, swapped)\<close> is a \<^verbatim>\<open>BitIntegerAdapter\<close> over
  \<^verbatim>\<open>Field(name, length)\<close>: the field holds \<open>length\<close> elements of the stream, one per
  bit (each 0 or 1, most significant first), and \<open>swapped\<close> reverses the groups of
  eight. The frames of \<^verbatim>\<open>ptp.py\<close> put it in a plain \<^verbatim>\<open>Struct\<close>, so the elements are
  the bytes of the stream. \<^verbatim>\<open>BitField('Parameter', 32)\<close>, the native choice, is not
  swapped.
\<close>

datatype bit_field = BitField nat bool

definition Parameter_con :: "bool \<Rightarrow> bool \<Rightarrow> error + bit_field" where
  "Parameter_con le be =
     switch_endian le be (BitField 32 True) (BitField 32 False) (BitField 32 False)"

text \<open>
  \<^verbatim>\<open>int_to_bin\<close> of \<^verbatim>\<open>construct.lib.binary\<close>: the lowest bit goes to the last place,
  the number is shifted, \<open>width\<close> times; bits above the width are dropped.
\<close>

fun int_to_bin_loop :: "int \<Rightarrow> nat \<Rightarrow> byte list" where
  "int_to_bin_loop number 0 = []"
| "int_to_bin_loop number (Suc i) = int_to_bin_loop (number div 2) i @ [word_of_int (number mod 2)]"

definition int_to_bin :: "int \<Rightarrow> nat \<Rightarrow> byte list" where
  "int_to_bin number width =
     int_to_bin_loop (if number < 0 then number + 2 ^ width else number) width"

text \<open>
  \<^verbatim>\<open>bin_to_int\<close>: the number is shifted and the lowest bit of the next element
  (\<^verbatim>\<open>b & 1\<close>) is added, for every element in turn; no element is refused.
\<close>

definition low_bit :: "byte \<Rightarrow> int" where
  "low_bit b = uint b mod 2"

fun bin_to_int_loop :: "int \<Rightarrow> byte list \<Rightarrow> int" where
  "bin_to_int_loop number [] = number"
| "bin_to_int_loop number (b # bits) = bin_to_int_loop (2 * number + low_bit b) bits"

definition bin_to_int :: "byte list \<Rightarrow> int" where
  "bin_to_int bits = bin_to_int_loop 0 bits"

text \<open>\<^verbatim>\<open>swap_bytes\<close>: the groups of \<open>bytesize\<close> elements, in reverse order.\<close>

function chunks :: "nat \<Rightarrow> 'a list \<Rightarrow> 'a list list" where
  "chunks bytesize bits =
     (if bytesize = 0 \<or> bits = [] then []
      else take bytesize bits # chunks bytesize (drop bytesize bits))"
  by pat_completeness auto
termination
  by (relation "measure (\<lambda>(bytesize, bits). length bits)") auto

declare chunks.simps [simp del]

definition swap_bytes :: "'a list \<Rightarrow> 'a list" where
  "swap_bytes bits = concat (rev (chunks 8 bits))"

text \<open>
  \<^verbatim>\<open>BitIntegerAdapter._encode\<close> refuses a negative number (the field is not signed);
  \<^verbatim>\<open>StaticField._parse\<close> raises \<^verbatim>\<open>FieldError\<close> on a short stream.
\<close>

fun BitField_build :: "bit_field \<Rightarrow> int \<Rightarrow> error + byte list" where
  "BitField_build (BitField width swapped) obj =
     (if obj < 0 then Inl BitIntegerError
      else (let obj2 = int_to_bin obj width
            in Inr (if swapped then swap_bytes obj2 else obj2)))"

fun BitField_parse :: "bit_field \<Rightarrow> byte list \<Rightarrow> error + int \<times> byte list" where
  "BitField_parse (BitField width swapped) stream =
     (if length stream < width then Inl FieldError
      else (let obj = take width stream;
                obj1 = (if swapped then swap_bytes obj else obj)
            in Inr (bin_to_int obj1, drop width stream)))"

text \<open>The 32 stream elements that \<open>BitField_build\<close> writes for a parameter.\<close>

definition bits32 :: "bool \<Rightarrow> int \<Rightarrow> byte list" where
  "bits32 swapped n = (if swapped then swap_bytes (int_to_bin n 32) else int_to_bin n 32)"

section \<open>Arrays\<close>

text \<open>
  construct's \<^verbatim>\<open>Array(count, subcon)\<close> is a \<^verbatim>\<open>MetaArray\<close>. \<^verbatim>\<open>_build\<close> raises
  \<^verbatim>\<open>ArrayError("expected %d, found %d")\<close> unless the list has exactly \<open>count\<close>
  elements, and then builds them in turn. \<^verbatim>\<open>_parse\<close> parses \<open>count\<close> elements in
  turn; an error of the library (a \<^verbatim>\<open>ConstructError\<close>) in an element becomes an
  \<^verbatim>\<open>ArrayError\<close> with the count reached, any other exception goes through.
\<close>

fun build_each :: "('a \<Rightarrow> error + byte list) \<Rightarrow> 'a list \<Rightarrow> error + byte list" where
  "build_each b [] = Inr []"
| "build_each b (x # xs) =
     bind_error (b x) (\<lambda>bs. bind_error (build_each b xs) (\<lambda>rest. Inr (bs @ rest)))"

definition Array_build :: "nat \<Rightarrow> ('a \<Rightarrow> error + byte list) \<Rightarrow> 'a list \<Rightarrow> error + byte list" where
  "Array_build count b obj =
     (if length obj \<noteq> count then Inl (ArrayError count (length obj)) else build_each b obj)"

fun ConstructError :: "error \<Rightarrow> bool" where
  "ConstructError FieldError = True"
| "ConstructError (ArrayError n k) = True"
| "ConstructError BitIntegerError = True"
| "ConstructError e = False"

fun parse_each ::
    "(byte list \<Rightarrow> error + 'a \<times> byte list) \<Rightarrow> nat \<Rightarrow> nat \<Rightarrow> nat \<Rightarrow> byte list
       \<Rightarrow> error + 'a list \<times> byte list" where
  "parse_each p count c 0 stream = Inr ([], stream)"
| "parse_each p count c (Suc n) stream =
     (case p stream of
        Inl e \<Rightarrow> Inl (if ConstructError e then ArrayError count c else e)
      | Inr (x, s1) \<Rightarrow>
          bind_error (parse_each p count (Suc c) n s1) (\<lambda>(xs, s2). Inr (x # xs, s2)))"

definition Array_parse ::
    "nat \<Rightarrow> (byte list \<Rightarrow> error + 'a \<times> byte list) \<Rightarrow> byte list \<Rightarrow> error + 'a list \<times> byte list" where
  "Array_parse count p stream = parse_each p count 0 count stream"

section \<open>Frames\<close>

text \<open>
  \<^verbatim>\<open>Event\<close>, \<^verbatim>\<open>Response\<close> and \<^verbatim>\<open>Operation\<close> (lines 201 to 228) are each a
  \<^verbatim>\<open>Struct\<close> of the code table of the kind, \<^verbatim>\<open>SessionID\<close>, \<^verbatim>\<open>TransactionID\<close> and
  an \<^verbatim>\<open>Array\<close> of a fixed number of \<^verbatim>\<open>Parameter\<close>. A frame codec is the record of the
  four sub-codecs and the number. The arguments of \<^verbatim>\<open>Struct\<close> are evaluated in order,
  so the first \<^verbatim>\<open>switch_endian\<close> that raises ends the construction.
\<close>

record frame_con =
  code_con :: enum_con
  sid_con :: format_field
  tid_con :: format_field
  param_count :: nat
  param_con :: bit_field

definition Struct_frame ::
    "error + enum_con \<Rightarrow> error + format_field \<Rightarrow> error + format_field \<Rightarrow> nat
       \<Rightarrow> error + bit_field \<Rightarrow> error + frame_con" where
  "Struct_frame code sid tid n param =
     bind_error code (\<lambda>c. bind_error sid (\<lambda>s. bind_error tid (\<lambda>t. bind_error param (\<lambda>p.
       Inr \<lparr>code_con = c, sid_con = s, tid_con = t, param_count = n, param_con = p\<rparr>))))"

definition Event :: "bool \<Rightarrow> bool \<Rightarrow> error + frame_con" where
  "Event le be =
     Struct_frame (EventCode le be []) (SessionID_con le be) (TransactionID_con le be)
       3 (Parameter_con le be)"

definition Response :: "bool \<Rightarrow> bool \<Rightarrow> error + frame_con" where
  "Response le be =
     Struct_frame (ResponseCode le be []) (SessionID_con le be) (TransactionID_con le be)
       5 (Parameter_con le be)"

definition Operation :: "bool \<Rightarrow> bool \<Rightarrow> error + frame_con" where
  "Operation le be =
     Struct_frame (OperationCode le be []) (SessionID_con le be) (TransactionID_con le be)
       5 (Parameter_con le be)"

text \<open>
  \<^verbatim>\<open>Struct._build\<close> builds the fields in their order into one stream, and
  \<^verbatim>\<open>Struct._parse\<close> parses them in their order; an exception of a field ends either.
\<close>

definition Struct_build :: "byteorder \<Rightarrow> frame_con \<Rightarrow> Container \<Rightarrow> error + byte list" where
  "Struct_build host con obj =
     bind_error (Enum_build host (code_con con) (Code obj)) (\<lambda>b1.
     bind_error (FormatField_build host (sid_con con) (Num (SessionID obj))) (\<lambda>b2.
     bind_error (FormatField_build host (tid_con con) (Num (TransactionID obj))) (\<lambda>b3.
     bind_error (Array_build (param_count con) (BitField_build (param_con con)) (Parameter obj))
       (\<lambda>b4. Inr (b1 @ b2 @ b3 @ b4)))))"

definition Struct_parse :: "byteorder \<Rightarrow> frame_con \<Rightarrow> byte list \<Rightarrow> error + Container \<times> byte list" where
  "Struct_parse host con stream =
     bind_error (Enum_parse host (code_con con) stream) (\<lambda>(code, s1).
     bind_error (FormatField_parse host (sid_con con) s1) (\<lambda>(sid, s2).
     bind_error (FormatField_parse host (tid_con con) s2) (\<lambda>(tid, s3).
     bind_error (Array_parse (param_count con) (BitField_parse (param_con con)) s3)
       (\<lambda>(params, s4).
          Inr (\<lparr>Code = code, SessionID = sid, TransactionID = tid, Parameter = params\<rparr>, s4)))))"

text \<open>
  \<^verbatim>\<open>Construct.build(obj)\<close> returns the bytes written; \<^verbatim>\<open>Construct.parse(data)\<close> parses
  from the start of the data and returns the value, whatever follows it.
\<close>

definition build :: "byteorder \<Rightarrow> frame_con \<Rightarrow> Container \<Rightarrow> error + byte list" where
  "build host con obj = Struct_build host con obj"

definition parse :: "byteorder \<Rightarrow> frame_con \<Rightarrow> byte list \<Rightarrow> error + Container" where
  "parse host con data = bind_error (Struct_parse host con data) (\<lambda>(obj, rest). Inr obj)"

text \<open>
  A frame that a codec encodes and gives back: the code is a name of the table, or a
  number of sixteen bits that the table does not name (a number the table names is
  decoded to its name); the identifiers and the parameters are unsigned numbers of 32
  bits; the parameters are as many as the kind has.
\<close>

definition well_formed :: "frame_con \<Rightarrow> Container \<Rightarrow> bool" where
  "well_formed con obj =
     ((case Code obj of
         Str s \<Rightarrow> s \<in> set (map fst (mapping (code_con con)))
       | Num n \<Rightarrow> 0 \<le> n \<and> n < 65536 \<and> n \<notin> set (map snd (mapping (code_con con))))
      \<and> 0 \<le> SessionID obj \<and> SessionID obj < 2 ^ 32
      \<and> 0 \<le> TransactionID obj \<and> TransactionID obj < 2 ^ 32
      \<and> length (Parameter obj) = param_count con
      \<and> list_all (\<lambda>p. 0 \<le> p \<and> p < 2 ^ 32) (Parameter obj))"


section \<open>Strings\<close>

text \<open>
  A text is the list of its code points. Python's codec \<^verbatim>\<open>utf16\<close>: encoding writes a
  byte order mark and the units in the machine's byte order, a code point above 0xFFFF
  as a surrogate pair; decoding takes the byte order from a leading mark, and the
  machine's without one, and raises on an odd number of bytes and on a surrogate that
  is not part of a pair.
\<close>

type_synonym unicode = "nat list"

fun utf16_units :: "unicode \<Rightarrow> error + nat list" where
  "utf16_units [] = Inr []"
| "utf16_units (c # cs) =
     (if (0xD800 \<le> c \<and> c < 0xE000) \<or> 0x10FFFF < c then Inl UnicodeError
      else bind_error (utf16_units cs) (\<lambda>us.
        Inr (if c < 0x10000 then c # us
             else (0xD800 + (c - 0x10000) div 0x400) # (0xDC00 + (c - 0x10000) mod 0x400) # us)))"

fun unit_bytes :: "byteorder \<Rightarrow> nat \<Rightarrow> byte list" where
  "unit_bytes LSB_first u = [of_nat (u mod 256), of_nat (u div 256)]"
| "unit_bytes MSB_first u = [of_nat (u div 256), of_nat (u mod 256)]"

definition utf16_encode :: "byteorder \<Rightarrow> unicode \<Rightarrow> error + byte list" where
  "utf16_encode host txt =
     bind_error (utf16_units txt) (\<lambda>us. Inr (concat (map (unit_bytes host) (0xFEFF # us))))"

fun bytes_units :: "byteorder \<Rightarrow> byte list \<Rightarrow> error + nat list" where
  "bytes_units order [] = Inr []"
| "bytes_units order [b] = Inl UnicodeError"
| "bytes_units order (b0 # b1 # bs) =
     bind_error (bytes_units order bs) (\<lambda>us.
       Inr ((case order of LSB_first \<Rightarrow> unat b0 + 256 * unat b1
                         | MSB_first \<Rightarrow> unat b1 + 256 * unat b0) # us))"

fun units_text :: "nat list \<Rightarrow> error + unicode" where
  "units_text [] = Inr []"
| "units_text [u] = (if 0xD800 \<le> u \<and> u < 0xE000 then Inl UnicodeError else Inr [u])"
| "units_text (u # l # us) =
     (if u < 0xD800 \<or> 0xE000 \<le> u
      then bind_error (units_text (l # us)) (\<lambda>cs. Inr (u # cs))
      else if u < 0xDC00 \<and> 0xDC00 \<le> l \<and> l < 0xE000
      then bind_error (units_text us)
             (\<lambda>cs. Inr ((0x10000 + (u - 0xD800) * 0x400 + (l - 0xDC00)) # cs))
      else Inl UnicodeError)"

definition utf16_decode :: "byteorder \<Rightarrow> byte list \<Rightarrow> error + unicode" where
  "utf16_decode host data =
     (if take 2 data = [0xFF, 0xFE]
      then bind_error (bytes_units LSB_first (drop 2 data)) units_text
      else if take 2 data = [0xFE, 0xFF]
      then bind_error (bytes_units MSB_first (drop 2 data)) units_text
      else bind_error (bytes_units host data) units_text)"

text \<open>
  construct's \<^verbatim>\<open>PascalString(name, length_field, encoding)\<close>: the length field, then a
  \<^verbatim>\<open>Field("data", lambda ctx: ctx[length_field.name])\<close> of that many elements of the
  stream, and the encoding applied to the data. On \<^verbatim>\<open>build\<close> the text is encoded first
  and the length written is that of the encoded data.
\<close>

datatype pascal_string = PascalString format_field

text \<open>\<^verbatim>\<open>PTPString\<close> (lines 277 to 285).\<close>

definition PTPString :: "bool \<Rightarrow> bool \<Rightarrow> error + pascal_string" where
  "PTPString le be =
     bind_error (switch_endian le be ULInt8 UBInt8 UNInt8) (\<lambda>length_field.
       Inr (PascalString length_field))"

fun PascalString_parse :: "byteorder \<Rightarrow> pascal_string \<Rightarrow> byte list \<Rightarrow> error + unicode \<times> byte list" where
  "PascalString_parse host (PascalString length_field) stream =
     bind_error (FormatField_parse host length_field stream) (\<lambda>(n, s1).
       if length s1 < nat n then Inl FieldError
       else bind_error (utf16_decode host (take (nat n) s1)) (\<lambda>txt.
              Inr (txt, drop (nat n) s1)))"

fun PascalString_build :: "byteorder \<Rightarrow> pascal_string \<Rightarrow> unicode \<Rightarrow> error + byte list" where
  "PascalString_build host (PascalString length_field) txt =
     bind_error (utf16_encode host txt) (\<lambda>data.
     bind_error (FormatField_build host length_field (Num (int (length data)))) (\<lambda>b1.
       Inr (b1 @ data)))"

section \<open>Length-prefixed arrays\<close>

text \<open>
  \<^verbatim>\<open>PTPArray\<close> (lines 288 to 294): a \<^verbatim>\<open>Struct\<close> of the field \<^verbatim>\<open>length\<close> and an
  \<^verbatim>\<open>Array\<close> whose count is the \<^verbatim>\<open>length\<close> of the context. Its value is the pair of
  the length and the list of elements; the elements of the arrays of \<^verbatim>\<open>DeviceInfo\<close>
  are codes of a table.
\<close>

datatype ptp_array = PTPArray_con format_field enum_con

definition PTPArray :: "error + enum_con \<Rightarrow> bool \<Rightarrow> bool \<Rightarrow> error + ptp_array" where
  "PTPArray element le be =
     bind_error element (\<lambda>el.
     bind_error (switch_endian le be ULInt32 UBInt32 UNInt32) (\<lambda>Length.
       Inr (PTPArray_con Length el)))"

fun PTPArray_parse ::
    "byteorder \<Rightarrow> ptp_array \<Rightarrow> byte list \<Rightarrow> error + (int \<times> pyval list) \<times> byte list" where
  "PTPArray_parse host (PTPArray_con Length element) stream =
     bind_error (FormatField_parse host Length stream) (\<lambda>(n, s1).
     bind_error (Array_parse (nat n) (Enum_parse host element) s1) (\<lambda>(xs, s2).
       Inr ((n, xs), s2)))"

fun PTPArray_build :: "byteorder \<Rightarrow> ptp_array \<Rightarrow> int \<times> pyval list \<Rightarrow> error + byte list" where
  "PTPArray_build host (PTPArray_con Length element) (n, xs) =
     bind_error (FormatField_build host Length (Num n)) (\<lambda>b1.
     bind_error (Array_build (nat n) (Enum_build host element) xs) (\<lambda>b2.
       Inr (b1 @ b2)))"

section \<open>The device information\<close>

text \<open>
  \<^verbatim>\<open>DeviceInfo\<close> (lines 338 to 366): the record of the thirteen sub-codecs, in the
  order of the \<^verbatim>\<open>Struct\<close>. The integers are written \<^verbatim>\<open>ULInt16\<close> and \<^verbatim>\<open>ULInt32\<close>;
  \<^verbatim>\<open>PTPString\<close> and \<^verbatim>\<open>PTPArray\<close> are called without \<^verbatim>\<open>_le_\<close> and \<^verbatim>\<open>_be_\<close>, which
  default to \<^verbatim>\<open>False\<close>; the element codecs of the arrays get both.
\<close>

record DeviceInfo_con =
  StandardVersion_con :: format_field
  VendorExtensionID_con :: format_field
  VendorExtensionVersion_con :: format_field
  VendorExtensionDesc_con :: pascal_string
  FunctionalMode_con :: format_field
  OperationSupported_con :: ptp_array
  EventsSupported_con :: ptp_array
  DevicePropertiesSupported_con :: ptp_array
  CaptureFormats_con :: ptp_array
  Manufacturer_con :: pascal_string
  Model_con :: pascal_string
  DeviceVersion_con :: pascal_string
  SerialNumber_con :: pascal_string

definition DeviceInfo :: "bool \<Rightarrow> bool \<Rightarrow> error + DeviceInfo_con" where
  "DeviceInfo le be =
     bind_error (PTPString False False) (\<lambda>desc.
     bind_error (PTPArray (OperationCode le be []) False False) (\<lambda>ops.
     bind_error (PTPArray (EventCode le be []) False False) (\<lambda>evs.
     bind_error (PTPArray (PropertyCode le be []) False False) (\<lambda>props.
     bind_error (PTPArray (ObjectFormatCode le be []) False False) (\<lambda>fmts.
     bind_error (PTPString False False) (\<lambda>manufacturer.
     bind_error (PTPString False False) (\<lambda>model.
     bind_error (PTPString False False) (\<lambda>version.
     bind_error (PTPString False False) (\<lambda>serial.
       Inr \<lparr>StandardVersion_con = ULInt16,
            VendorExtensionID_con = ULInt32,
            VendorExtensionVersion_con = ULInt16,
            VendorExtensionDesc_con = desc,
            FunctionalMode_con = ULInt16,
            OperationSupported_con = ops,
            EventsSupported_con = evs,
            DevicePropertiesSupported_con = props,
            CaptureFormats_con = fmts,
            Manufacturer_con = manufacturer,
            Model_con = model,
            DeviceVersion_con = version,
            SerialNumber_con = serial\<rparr>)))))))))"

record DeviceInfo_obj =
  StandardVersion :: int
  VendorExtensionID :: int
  VendorExtensionVersion :: int
  VendorExtensionDesc :: unicode
  FunctionalMode :: int
  OperationSupported :: "int \<times> pyval list"
  EventsSupported :: "int \<times> pyval list"
  DevicePropertiesSupported :: "int \<times> pyval list"
  CaptureFormats :: "int \<times> pyval list"
  Manufacturer :: unicode
  Model :: unicode
  DeviceVersion :: unicode
  SerialNumber :: unicode

definition DeviceInfo_build :: "byteorder \<Rightarrow> DeviceInfo_con \<Rightarrow> DeviceInfo_obj \<Rightarrow> error + byte list" where
  "DeviceInfo_build host con obj =
     bind_error (FormatField_build host (StandardVersion_con con) (Num (StandardVersion obj))) (\<lambda>b1.
     bind_error (FormatField_build host (VendorExtensionID_con con) (Num (VendorExtensionID obj))) (\<lambda>b2.
     bind_error (FormatField_build host (VendorExtensionVersion_con con)
                   (Num (VendorExtensionVersion obj))) (\<lambda>b3.
     bind_error (PascalString_build host (VendorExtensionDesc_con con) (VendorExtensionDesc obj)) (\<lambda>b4.
     bind_error (FormatField_build host (FunctionalMode_con con) (Num (FunctionalMode obj))) (\<lambda>b5.
     bind_error (PTPArray_build host (OperationSupported_con con) (OperationSupported obj)) (\<lambda>b6.
     bind_error (PTPArray_build host (EventsSupported_con con) (EventsSupported obj)) (\<lambda>b7.
     bind_error (PTPArray_build host (DevicePropertiesSupported_con con)
                   (DevicePropertiesSupported obj)) (\<lambda>b8.
     bind_error (PTPArray_build host (CaptureFormats_con con) (CaptureFormats obj)) (\<lambda>b9.
     bind_error (PascalString_build host (Manufacturer_con con) (Manufacturer obj)) (\<lambda>b10.
     bind_error (PascalString_build host (Model_con con) (Model obj)) (\<lambda>b11.
     bind_error (PascalString_build host (DeviceVersion_con con) (DeviceVersion obj)) (\<lambda>b12.
     bind_error (PascalString_build host (SerialNumber_con con) (SerialNumber obj)) (\<lambda>b13.
       Inr (b1 @ b2 @ b3 @ b4 @ b5 @ b6 @ b7 @ b8 @ b9 @ b10 @ b11 @ b12 @ b13))))))))))))))"

definition DeviceInfo_parse ::
    "byteorder \<Rightarrow> DeviceInfo_con \<Rightarrow> byte list \<Rightarrow> error + DeviceInfo_obj \<times> byte list" where
  "DeviceInfo_parse host con stream =
     bind_error (FormatField_parse host (StandardVersion_con con) stream) (\<lambda>(v1, s1).
     bind_error (FormatField_parse host (VendorExtensionID_con con) s1) (\<lambda>(v2, s2).
     bind_error (FormatField_parse host (VendorExtensionVersion_con con) s2) (\<lambda>(v3, s3).
     bind_error (PascalString_parse host (VendorExtensionDesc_con con) s3) (\<lambda>(v4, s4).
     bind_error (FormatField_parse host (FunctionalMode_con con) s4) (\<lambda>(v5, s5).
     bind_error (PTPArray_parse host (OperationSupported_con con) s5) (\<lambda>(v6, s6).
     bind_error (PTPArray_parse host (EventsSupported_con con) s6) (\<lambda>(v7, s7).
     bind_error (PTPArray_parse host (DevicePropertiesSupported_con con) s7) (\<lambda>(v8, s8).
     bind_error (PTPArray_parse host (CaptureFormats_con con) s8) (\<lambda>(v9, s9).
     bind_error (PascalString_parse host (Manufacturer_con con) s9) (\<lambda>(v10, s10).
     bind_error (PascalString_parse host (Model_con con) s10) (\<lambda>(v11, s11).
     bind_error (PascalString_parse host (DeviceVersion_con con) s11) (\<lambda>(v12, s12).
     bind_error (PascalString_parse host (SerialNumber_con con) s12) (\<lambda>(v13, s13).
       Inr (\<lparr>StandardVersion = v1, VendorExtensionID = v2, VendorExtensionVersion = v3,
             VendorExtensionDesc = v4, FunctionalMode = v5, OperationSupported = v6,
             EventsSupported = v7, DevicePropertiesSupported = v8, CaptureFormats = v9,
             Manufacturer = v10, Model = v11, DeviceVersion = v12, SerialNumber = v13\<rparr>,
            s13))))))))))))))"


section \<open>Properties of the session and transaction state\<close>

lemma transaction_get_eq:
  "transaction_get d =
     (private_transaction_id d,
      d\<lparr>private_transaction_id :=
           (if private_transaction_id d + 1 > 0xFFFFFFFE then 1 else private_transaction_id d + 1)\<rparr>)"
  by (simp add: transaction_get_def Let_def)

lemma produce_from:
  "1 \<le> private_transaction_id d \<Longrightarrow> private_transaction_id d \<le> 0xFFFFFFFE \<Longrightarrow>
   fst (produce n d) =
     map (\<lambda>k. (private_transaction_id d - 1 + int k) mod 0xFFFFFFFE + 1) [0..<n]"
proof (induction n arbitrary: d)
  case 0
  then show ?case by simp
next
  case (Suc n)
  let ?c = "private_transaction_id d"
  let ?d1 = "snd (transaction_get d)"
  have c1: "private_transaction_id ?d1 = (if ?c + 1 > 0xFFFFFFFE then 1 else ?c + 1)"
    by (simp add: transaction_get_eq)
  have b: "1 \<le> private_transaction_id ?d1" "private_transaction_id ?d1 \<le> 0xFFFFFFFE"
    using Suc.prems by (simp_all add: c1)
  have ih: "fst (produce n ?d1) =
      map (\<lambda>k. (private_transaction_id ?d1 - 1 + int k) mod 0xFFFFFFFE + 1) [0..<n]"
    by (rule Suc.IH [OF b])
  have step: "(private_transaction_id ?d1 - 1 + int k) mod 0xFFFFFFFE
      = (?c - 1 + int (Suc k)) mod 0xFFFFFFFE" for k
  proof (cases "?c + 1 > 0xFFFFFFFE")
    case True
    with Suc.prems have "?c = 0xFFFFFFFE" by simp
    then show ?thesis by (simp add: c1)
  next
    case False
    then show ?thesis by (simp add: c1 algebra_simps)
  qed
  have hd: "(?c - 1 + int 0) mod 0xFFFFFFFE + 1 = ?c"
    using Suc.prems by simp
  have "fst (produce (Suc n) d) = ?c # fst (produce n ?d1)"
    by (simp add: transaction_get_eq split: prod.splits)
  also have "\<dots> = ?c # map (\<lambda>k. (?c - 1 + int (Suc k)) mod 0xFFFFFFFE + 1) [0..<n]"
    by (simp only: ih step)
  also have "\<dots> = map (\<lambda>k. (?c - 1 + int k) mod 0xFFFFFFFE + 1) [0..<Suc n]"
    using hd by (simp only: map_upt_Suc list.simps) 
  finally show ?case .
qed

lemma open_session_eq:
  "open_session mesg d =
     (let ptp = \<lparr>Code = Str ''OpenSession'', SessionID = 0, TransactionID = 0,
                 Parameter = [private_session d + 1, 0, 0, 0, 0]\<rparr>
      in (fst (mesg ptp (transport d)),
          d\<lparr>private_session := private_session d + 1, private_transaction_id := 1,
            transport := snd (mesg ptp (transport d)),
            calls := calls d @ [Call_open_session]\<rparr>))"
  by (simp add: open_session_def transaction_set_def transaction_get_eq Let_def
      split: prod.splits)

lemma close_session_eq:
  "close_session mesg d =
     (let ptp = \<lparr>Code = Str ''CloseSession'', SessionID = private_session d,
                 TransactionID = private_transaction_id d, Parameter = [0, 0, 0, 0, 0]\<rparr>
      in (fst (mesg ptp (transport d)),
          d\<lparr>private_transaction_id :=
               (if private_transaction_id d + 1 > 0xFFFFFFFE then 1
                else private_transaction_id d + 1),
            transport := snd (mesg ptp (transport d)),
            calls := calls d @ [Call_close_session]\<rparr>))"
  by (simp add: close_session_def transaction_get_eq Let_def split: prod.splits)

lemma open_session_calls:
  "calls (snd (open_session mesg d)) = calls d @ [Call_open_session]"
  by (simp add: open_session_eq Let_def)

lemma close_session_calls:
  "calls (snd (close_session mesg d)) = calls d @ [Call_close_session]"
  by (simp add: close_session_eq Let_def)

lemma finally_close_session_calls:
  "calls (snd (finally_close_session mesg pending d)) = calls d @ [Call_close_session]"
proof (cases "close_session mesg d")
  case (Pair r d1)
  then have "calls d1 = calls d @ [Call_close_session]"
    using close_session_calls [of mesg d] by simp
  with Pair show ?thesis
    by (cases r) (simp_all add: finally_close_session_def)
qed

text \<open>
  C3. Whatever the state \<open>d\<close> (so however many sessions were opened before),
  \<open>open_session\<close> increments the session counter to S, leaves the transaction counter
  at 1 (reset to 0, then read once), hands the transport's \<open>mesg\<close> the container with
  code \<^verbatim>\<open>'OpenSession'\<close>, SessionID 0, TransactionID 0 and Parameter [S, 0, 0, 0, 0],
  and returns what \<open>mesg\<close> returned (a response or its exception) as it is.
\<close>

theorem open_session_container:
  "open_session mesg d =
     (fst (mesg \<lparr>Code = Str ''OpenSession'', SessionID = 0, TransactionID = 0,
                 Parameter = [private_session d + 1, 0, 0, 0, 0]\<rparr> (transport d)),
      d\<lparr>private_session := private_session d + 1, private_transaction_id := 1,
        transport := snd (mesg \<lparr>Code = Str ''OpenSession'', SessionID = 0, TransactionID = 0,
                 Parameter = [private_session d + 1, 0, 0, 0, 0]\<rparr> (transport d)),
        calls := calls d @ [Call_open_session]\<rparr>)"
  by (simp add: open_session_eq Let_def)

text \<open>
  C10. Assigning any value to \<^verbatim>\<open>session_id\<close> raises nothing and leaves the whole state,
  so the internal session counter, as it was; reading \<^verbatim>\<open>session_id\<close> gives the
  internal session counter.
\<close>

theorem session_id_assignment_ignored:
  "session_id_set v d = Inr d \<and> session_id d = private_session d"
  by (simp add: session_id_set_def session_id_def)

text \<open>
  C2. When \<open>open_session\<close> returns, \<open>session\<close> has called it once (one entry added to
  the history), then runs the body from the state \<open>open_session\<close> left, and then calls
  \<open>close_session\<close> exactly once from the state the body left, however the body ended
  (\<open>out\<close> is \<open>Completed\<close>, \<open>Returned v\<close> or \<open>Raised e\<close>): the history after the
  statement is the history after the body with one \<open>Call_close_session\<close> added. The
  outcome of the statement is the body's, so a body's exception goes on after
  \<open>close_session\<close> has returned; an exception of \<open>close_session\<close> itself replaces it.
\<close>

theorem session_closes_once:
  assumes "open_session mesg d = (Inr response, d1)" and "body d1 = (out, d2)"
  shows "session mesg body d =
           (case close_session mesg d2 of
              (Inl e, d3) \<Rightarrow> (Raised e, d3)
            | (Inr r, d3) \<Rightarrow> (out, d3))
         \<and> calls d1 = calls d @ [Call_open_session]
         \<and> calls (snd (session mesg body d)) = calls d2 @ [Call_close_session]"
proof -
  have s: "session mesg body d = finally_close_session mesg out d2"
    using assms by (simp add: session_def)
  have c1: "calls d1 = calls d @ [Call_open_session]"
    using open_session_calls [of mesg d] assms(1) by simp
  show ?thesis
    by (simp add: s c1 finally_close_session_calls) (simp add: finally_close_session_def)
qed

theorem session_closes_once_witness:
  "open_session mesg_recording fresh_device =
     (Inr ''OK'', fresh_device\<lparr>private_session := 1, private_transaction_id := 1,
        transport := [\<lparr>Code = Str ''OpenSession'', SessionID = 0, TransactionID = 0,
                       Parameter = [1, 0, 0, 0, 0]\<rparr>],
        calls := [Call_open_session]\<rparr>)
   \<and> fst (session mesg_recording (\<lambda>d. (Completed :: nat exit, d)) fresh_device) = Completed
   \<and> calls (snd (session mesg_recording (\<lambda>d. (Completed :: nat exit, d)) fresh_device))
       = [Call_open_session, Call_close_session]
   \<and> fst (session mesg_recording (\<lambda>d. (Returned (5 :: nat), d)) fresh_device) = Returned 5
   \<and> calls (snd (session mesg_recording (\<lambda>d. (Returned (5 :: nat), d)) fresh_device))
       = [Call_open_session, Call_close_session]
   \<and> fst (session mesg_recording (\<lambda>d. (Raised (Exception ''body'') :: nat exit, d))
        fresh_device) = Raised (Exception ''body'')
   \<and> calls (snd (session mesg_recording (\<lambda>d. (Raised (Exception ''body'') :: nat exit, d))
        fresh_device)) = [Call_open_session, Call_close_session]
   \<and> transport (snd (session mesg_recording (\<lambda>d. (Raised (Exception ''body'') :: nat exit, d))
        fresh_device))
       = [\<lparr>Code = Str ''OpenSession'', SessionID = 0, TransactionID = 0,
            Parameter = [1, 0, 0, 0, 0]\<rparr>,
          \<lparr>Code = Str ''CloseSession'', SessionID = 1, TransactionID = 1,
            Parameter = [0, 0, 0, 0, 0]\<rparr>]"
proof -
  let ?d1 = "fresh_device\<lparr>private_session := 1, private_transaction_id := 1,
        transport := [\<lparr>Code = Str ''OpenSession'', SessionID = 0, TransactionID = 0,
                       Parameter = [1, 0, 0, 0, 0]\<rparr>],
        calls := [Call_open_session]\<rparr>"
  let ?completes = "\<lambda>d :: Container list PTPDevice. (Completed :: nat exit, d)"
  let ?returns = "\<lambda>d :: Container list PTPDevice. (Returned (5 :: nat), d)"
  let ?raises = "\<lambda>d :: Container list PTPDevice. (Raised (Exception ''body'') :: nat exit, d)"
  have o: "open_session mesg_recording fresh_device = (Inr ''OK'', ?d1)"
    by (simp add: open_session_eq mesg_recording_def fresh_device_def)
  have c: "close_session mesg_recording ?d1 =
      (Inr ''OK'', ?d1\<lparr>private_transaction_id := 2,
         transport := [\<lparr>Code = Str ''OpenSession'', SessionID = 0, TransactionID = 0,
                          Parameter = [1, 0, 0, 0, 0]\<rparr>,
                       \<lparr>Code = Str ''CloseSession'', SessionID = 1, TransactionID = 1,
                          Parameter = [0, 0, 0, 0, 0]\<rparr>],
         calls := [Call_open_session, Call_close_session]\<rparr>)"
    by (simp add: close_session_eq mesg_recording_def fresh_device_def)
  show ?thesis
    using session_closes_once [where body = ?completes, OF o refl]
      session_closes_once [where body = ?returns, OF o refl]
      session_closes_once [where body = ?raises, OF o refl] o
    by (simp add: c)
qed

text \<open>
  When \<open>close_session\<close> itself raises, its exception is the one that leaves the
  statement, in place of the body's.
\<close>

lemma session_close_raises:
  "fst (session mesg_failing_close (\<lambda>d. (Raised (Exception ''body'') :: nat exit, d))
     fresh_device) = Raised (Exception ''transport'')"
  by (simp add: session_def finally_close_session_def open_session_eq close_session_eq
      mesg_failing_close_def fresh_device_def)

text \<open>
  C9. When \<open>open_session\<close> itself raises, \<open>session\<close> does not run the body and still
  calls \<open>close_session\<close>, once, before an exception leaves the statement: the history
  grows by exactly \<open>Call_open_session\<close>, \<open>Call_close_session\<close>, and the statement raises
  the exception of \<open>open_session\<close> (or that of \<open>close_session\<close>, when it raises too).
\<close>

theorem session_closes_after_failed_open:
  assumes "open_session mesg d = (Inl e, d1)"
  shows "session mesg body d =
           (case close_session mesg d1 of
              (Inl e', d2) \<Rightarrow> (Raised e', d2)
            | (Inr r, d2) \<Rightarrow> (Raised e, d2))
         \<and> calls (snd (session mesg body d)) = calls d @ [Call_open_session, Call_close_session]"
proof -
  have s: "session mesg body d = finally_close_session mesg (Raised e) d1"
    using assms by (simp add: session_def)
  have c1: "calls d1 = calls d @ [Call_open_session]"
    using open_session_calls [of mesg d] assms(1) by simp
  show ?thesis
    by (simp add: s c1 finally_close_session_calls) (simp add: finally_close_session_def)
qed

theorem session_closes_after_failed_open_witness:
  "fst (open_session (mesg_unimplemented :: (Container list, string) mesg) fresh_device)
     = Inl (PTPUnimplemented ''Please implement PTP no-dataphase command for this transport.'')
   \<and> fst (session (mesg_unimplemented :: (Container list, string) mesg)
            (\<lambda>d. (Completed :: unit exit, d)) fresh_device)
     = Raised (PTPUnimplemented ''Please implement PTP no-dataphase command for this transport.'')
   \<and> calls (snd (session (mesg_unimplemented :: (Container list, string) mesg)
            (\<lambda>d. (Completed :: unit exit, d)) fresh_device))
     = [Call_open_session, Call_close_session]"
proof -
  let ?m = "mesg_unimplemented :: (Container list, string) mesg"
  let ?e = "PTPUnimplemented ''Please implement PTP no-dataphase command for this transport.''"
  let ?d1 = "fresh_device\<lparr>private_session := 1, private_transaction_id := 1,
        calls := [Call_open_session]\<rparr>"
  have o: "open_session ?m fresh_device = (Inl ?e, ?d1)"
    by (simp add: open_session_eq mesg_unimplemented_def fresh_device_def)
  show ?thesis
    using session_closes_after_failed_open
      [where body = "\<lambda>d. (Completed :: unit exit, d)", OF o] o
    by (simp add: close_session_eq mesg_unimplemented_def fresh_device_def)
qed

text \<open>
  C1. From a fresh transaction counter (0), n successive reads of \<^verbatim>\<open>__transaction\<close>
  return 0, 1, 2, ..., 0xFFFFFFFE, 1, 2, ...: read number k (counted from 0) returns 0
  when k is 0 and ((k - 1) mod 0xFFFFFFFE) + 1 otherwise; 0 is not among the values
  after the first; every read returns the counter as it stands and then increments it,
  setting it to 1 when the increment passes 0xFFFFFFFE, so that the reads from
  0xFFFFFFFD on are 0xFFFFFFFD, 0xFFFFFFFE, 1.
\<close>

theorem transaction_sequence:
  "fst (produce n (d\<lparr>private_transaction_id := 0\<rparr>)) =
     map (\<lambda>k. if k = 0 then 0 else (int k - 1) mod 0xFFFFFFFE + 1) [0..<n]
   \<and> 0 \<notin> set (tl (fst (produce n (d\<lparr>private_transaction_id := 0\<rparr>))))
   \<and> transaction_get d =
       (private_transaction_id d,
        d\<lparr>private_transaction_id :=
             (if private_transaction_id d + 1 > 0xFFFFFFFE then 1
              else private_transaction_id d + 1)\<rparr>)
   \<and> fst (produce 3 (d\<lparr>private_transaction_id := 0xFFFFFFFD\<rparr>))
       = [0xFFFFFFFD, 0xFFFFFFFE, 1]"
proof -
  let ?d0 = "d\<lparr>private_transaction_id := 0\<rparr>"
  let ?d1 = "d\<lparr>private_transaction_id := 1\<rparr>"
  let ?f = "\<lambda>k. if k = 0 then 0 else (int k - 1) mod 0xFFFFFFFE + 1"
  let ?g = "\<lambda>k. (int k) mod 0xFFFFFFFE + 1"
  have tail: "fst (produce m ?d1) = map ?g [0..<m]" for m
    using produce_from [of ?d1 m] by simp
  have shift: "map ?f [0..<Suc m] = 0 # map ?g [0..<m]" for m
    by (simp only: map_upt_Suc) simp
  have seq: "fst (produce n ?d0) = map ?f [0..<n]"
  proof (cases n)
    case 0
    then show ?thesis by simp
  next
    case (Suc m)
    have "fst (produce (Suc m) ?d0) = 0 # fst (produce m ?d1)"
      by (simp add: transaction_get_eq split: prod.splits)
    then show ?thesis
      unfolding Suc by (simp only: tail shift)
  qed
  have pos: "0 \<notin> set (tl (map ?f [0..<n]))"
  proof (cases n)
    case 0
    then show ?thesis by simp
  next
    case (Suc m)
    have "?g k \<noteq> 0" for k
    proof -
      have "0 \<le> (int k) mod 0xFFFFFFFE" by simp
      then show ?thesis by linarith
    qed
    then have "0 \<notin> set (map ?g [0..<m])"
      by (auto simp: image_iff)
    then show ?thesis
      unfolding Suc by (simp only: shift list.sel) simp
  qed
  have wrap: "fst (produce 3 (d\<lparr>private_transaction_id := 0xFFFFFFFD\<rparr>))
       = [0xFFFFFFFD, 0xFFFFFFFE, 1]"
    by (simp add: numeral_3_eq_3 transaction_get_eq split: prod.splits)
  show ?thesis
    using seq pos wrap by (simp only: transaction_get_eq) simp
qed

section \<open>Properties of the codecs\<close>

lemma bind_error_simps [simp]:
  "bind_error (Inl e) f = Inl e"
  "bind_error (Inr x) f = f x"
  by (simp_all add: bind_error_def)

lemma length_le_bytes [simp]: "length (le_bytes k n) = k"
  by (induction k arbitrary: n) simp_all

lemma uint_byte_mod: "uint (word_of_int (n mod 256) :: byte) = n mod 256"
  by (simp add: uint_word_of_int take_bit_eq_mod)

lemma le_int_le_bytes: "le_int (le_bytes k n) = n mod 256 ^ k"
proof (induction k arbitrary: n)
  case 0
  then show ?case by simp
next
  case (Suc k)
  have "n mod (256 * 256 ^ k) = 256 * (n div 256 mod 256 ^ k) + n mod 256"
    by (rule zmod_zmult2_eq) simp
  then show ?case
    by (simp add: Suc.IH uint_byte_mod)
qed

lemma length_pack [simp]: "length (pack order k n) = k"
  by (cases order) (simp_all add: pack_def)

lemma unpack_pack: "0 \<le> n \<Longrightarrow> n < 256 ^ k \<Longrightarrow> unpack order (pack order k n) = n"
  by (cases order) (simp_all add: pack_def unpack_def le_int_le_bytes)

lemma FormatField_build_ok:
  assumes "0 \<le> n" and "n < 256 ^ k"
  shows "FormatField_build host (FormatField e k) (Num n) = Inr (pack (resolve host e) k n)"
  using assms by simp

lemma FormatField_parse_pack:
  assumes "0 \<le> n" and "n < 256 ^ k"
  shows "FormatField_parse host (FormatField e k) (pack (resolve host e) k n @ rest) = Inr (n, rest)"
  using assms by (simp add: unpack_pack)

lemma map_of_reverse_table:
  assumes "distinct (map snd m)" and "map_of m s = Some c"
  shows "map_of (map (\<lambda>(name, c). (c, name)) (rev m)) c = Some s"
proof -
  have mem: "(s, c) \<in> set m"
    using assms(2) by (rule map_of_SomeD)
  have d: "distinct (map fst (map (\<lambda>(name, c). (c, name)) (rev m)))"
    using assms(1) by (simp add: comp_def case_prod_unfold distinct_rev rev_map [symmetric])
  have "(c, s) \<in> set (map (\<lambda>(name, c). (c, name)) (rev m))"
    using mem by force
  with d show ?thesis by simp
qed

lemma map_of_reverse_table_None:
  assumes "n \<notin> set (map snd m)"
  shows "map_of (map (\<lambda>(name, c). (c, name)) (rev m)) n = None"
proof -
  have "n \<notin> fst ` set (map (\<lambda>(name, c). (c, name)) (rev m))"
    using assms by force
  then show ?thesis by (simp add: map_of_eq_None_iff)
qed

lemma length_int_to_bin_loop [simp]: "length (int_to_bin_loop n w) = w"
  by (induction w arbitrary: n) simp_all

lemma low_bit_mod2: "low_bit (word_of_int (n mod 2)) = n mod 2"
proof -
  have "n mod 2 = 0 \<or> n mod 2 = 1" by presburger
  then show ?thesis by (auto simp: low_bit_def)
qed

lemma bin_to_int_loop_append:
  "bin_to_int_loop a (xs @ [b]) = 2 * bin_to_int_loop a xs + low_bit b"
  by (induction xs arbitrary: a) simp_all

lemma bin_to_int_loop_int_to_bin_loop:
  "bin_to_int_loop a (int_to_bin_loop n w) = a * 2 ^ w + n mod 2 ^ w"
proof (induction w arbitrary: n)
  case 0
  then show ?case by simp
next
  case (Suc w)
  have "n mod (2 * 2 ^ w) = 2 * (n div 2 mod 2 ^ w) + n mod 2"
    by (rule zmod_zmult2_eq) simp
  then show ?case
    by (simp add: bin_to_int_loop_append Suc.IH low_bit_mod2 algebra_simps)
qed

lemma bin_to_int_int_to_bin:
  "0 \<le> n \<Longrightarrow> n < 2 ^ w \<Longrightarrow> bin_to_int (int_to_bin n w) = n"
  by (simp add: bin_to_int_def int_to_bin_def bin_to_int_loop_int_to_bin_loop)

lemma chunks_Nil [simp]: "chunks n [] = []"
  by (subst chunks.simps) simp

lemma chunks_concat:
  "0 < n \<Longrightarrow> list_all (\<lambda>c. length c = n) cs \<Longrightarrow> chunks n (concat cs) = cs"
proof (induction cs)
  case Nil
  then show ?case by simp
next
  case (Cons c cs)
  then have "c \<noteq> []" by auto
  with Cons show ?case
    by (subst chunks.simps) simp
qed

lemma concat_chunks: "0 < n \<Longrightarrow> concat (chunks n xs) = xs"
proof (induction n xs rule: chunks.induct)
  case (1 n xs)
  show ?case
  proof (cases "xs = []")
    case True
    then show ?thesis by simp
  next
    case False
    with 1 show ?thesis
      by (subst chunks.simps) simp
  qed
qed

lemma chunks_lengths:
  "0 < n \<Longrightarrow> n dvd length xs \<Longrightarrow> list_all (\<lambda>c. length c = n) (chunks n xs)"
proof (induction n xs rule: chunks.induct)
  case (1 n xs)
  show ?case
  proof (cases "xs = []")
    case True
    then show ?thesis by simp
  next
    case False
    then have len: "n \<le> length xs"
      using "1.prems" by (auto dest: dvd_imp_le)
    then have "n dvd length (drop n xs)"
      using "1.prems" by (simp add: dvd_diff_nat)
    with 1 False len show ?thesis
      by (subst chunks.simps) simp
  qed
qed

lemma swap_bytes_involution:
  assumes "8 dvd length xs"
  shows "swap_bytes (swap_bytes xs) = xs"
proof -
  have l: "list_all (\<lambda>c. length c = 8) (rev (chunks 8 xs))"
    using chunks_lengths [of 8 xs] assms by (simp add: list_all_iff)
  have "chunks 8 (concat (rev (chunks 8 xs))) = rev (chunks 8 xs)"
    by (rule chunks_concat [OF _ l]) simp
  then show ?thesis
    by (simp add: swap_bytes_def concat_chunks)
qed

lemma length_swap_bytes [simp]: "length (swap_bytes xs) = length xs"
proof -
  have "length (concat (rev (chunks 8 xs))) = length (concat (chunks 8 xs))"
    by (simp add: length_concat rev_map [symmetric])
  then show ?thesis
    by (simp add: swap_bytes_def concat_chunks)
qed

lemma length_int_to_bin [simp]: "length (int_to_bin n w) = w"
  by (simp add: int_to_bin_def)

lemma BitField_build_ok:
  assumes "0 \<le> n"
  shows "BitField_build (BitField 32 swapped) n = Inr (bits32 swapped n)"
  using assms by (simp add: bits32_def Let_def)

lemma BitField_parse_bits32:
  assumes "0 \<le> n" and "n < 2 ^ 32"
  shows "BitField_parse (BitField 32 swapped) (bits32 swapped n @ rest) = Inr (n, rest)"
proof -
  have len: "length (bits32 swapped n) = 32"
    by (simp add: bits32_def)
  have un: "(if swapped then swap_bytes (bits32 swapped n) else bits32 swapped n) = int_to_bin n 32"
    by (simp add: bits32_def swap_bytes_involution)
  show ?thesis
    using assms by (simp add: len un Let_def bin_to_int_int_to_bin)
qed

lemma build_each_ok:
  assumes "list_all (\<lambda>x. b x = Inr (enc x)) xs"
  shows "build_each b xs = Inr (concat (map enc xs))"
  using assms by (induction xs) simp_all

lemma parse_each_ok:
  assumes "list_all (\<lambda>x. \<forall>rest. p (enc x @ rest) = Inr (x, rest)) xs"
  shows "parse_each p count c (length xs) (concat (map enc xs) @ rest) = Inr (xs, rest)"
  using assms by (induction xs arbitrary: c) simp_all

lemma switch_endian_Inr:
  "switch_endian le be l b n = Inr x \<Longrightarrow>
     \<not> (le \<and> be) \<and> x = (if le then l else if be then b else n)"
  by (auto simp: switch_endian_def split: if_splits)

lemma Enum_call_Nil [simp]: "Enum_call sc canonical [] = Inr (Enum sc canonical)"
  by (simp add: Enum_call_def)

lemma Enum_call_Inr:
  "Enum_call sc canonical vendor = Inr con \<Longrightarrow> con = Enum sc (canonical @ vendor)"
  by (auto simp: Enum_call_def split: if_splits)

lemma bind_error_Inr:
  "bind_error r f = Inr y \<Longrightarrow> \<exists>x. r = Inr x \<and> f x = Inr y"
  by (cases r) simp_all

lemma code_table_Inr:
  assumes "bind_error (switch_endian le be ULInt16 UBInt16 UNInt16)
             (\<lambda>sc. Enum_call sc canonical vendor) = Inr con"
  shows "\<exists>e. con = Enum (FormatField e 2) (canonical @ vendor)"
proof -
  obtain sc where sc: "switch_endian le be ULInt16 UBInt16 UNInt16 = Inr sc"
    and c: "Enum_call sc canonical vendor = Inr con"
    using bind_error_Inr [OF assms] by blast
  have "\<exists>e. sc = FormatField e 2"
    using switch_endian_Inr [OF sc]
    by (auto simp: ULInt16_def UBInt16_def UNInt16_def split: if_splits)
  with Enum_call_Inr [OF c] show ?thesis by blast
qed

lemma unpack_two_bytes_range:
  "0 \<le> unpack order [b0, b1] \<and> unpack order [b0, b1] < 65536"
proof -
  have "0 \<le> uint b0" "uint b0 < 256" "0 \<le> uint b1" "uint b1 < 256"
    using uint_bounded [of b0] uint_bounded [of b1] by simp_all
  then show ?thesis
    by (cases order) (simp_all add: unpack_def)
qed

lemma Enum_decode_miss:
  assumes "0 \<le> n" and "n < 65536" and "n \<notin> set (map snd m)"
  shows "FormatField_build host (FormatField e 2) (Num n) = Inr (pack (resolve host e) 2 n)
       \<and> Enum_parse host (Enum (FormatField e 2) m) (pack (resolve host e) 2 n @ rest)
          = Inr (Num n, rest)"
proof -
  have r: "n < 256 ^ 2" using assms(2) by simp
  have b: "FormatField_build host (FormatField e 2) (Num n) = Inr (pack (resolve host e) 2 n)"
    using assms(1) r by (rule FormatField_build_ok)
  have "FormatField_parse host (FormatField e 2) (pack (resolve host e) 2 n @ rest) = Inr (n, rest)"
    using assms(1) r by (rule FormatField_parse_pack)
  then have "Enum_parse host (Enum (FormatField e 2) m) (pack (resolve host e) 2 n @ rest)
          = Inr (Num n, rest)"
    using map_of_reverse_table_None [OF assms(3)]
    by (simp add: MappingAdapter_decode_def del: FormatField_parse.simps)
  with b show ?thesis by simp
qed

lemma Enum_encode_miss:
  assumes "s \<notin> set (map fst m)"
  shows "Enum_build host (Enum sc m) (Str s) = Inl FieldError"
proof -
  have "map_of m s = None"
    using assms by (simp add: map_of_eq_None_iff)
  then show ?thesis by (cases sc) simp
qed

text \<open>
  C5. For each of the five code tables, with any vendor entries and in any byte order:
  decoding two bytes never fails, and gives the number \<open>k\<close> of sixteen bits that the
  bytes hold, itself, when the table has no entry for \<open>k\<close>; every number of sixteen
  bits without an entry is decoded, from the two bytes that encode it, to itself; and
  encoding a symbolic name that the table has no entry for fails (the name goes through
  the table unchanged and the integer field refuses it with \<open>FieldError\<close>).
\<close>

theorem code_table_miss:
  assumes "table \<in> {OperationCode, ResponseCode, EventCode, PropertyCode, ObjectFormatCode}"
    and "table le be vendor = Inr con"
  shows "(\<exists>k. 0 \<le> k \<and> k < 65536
              \<and> FormatField_parse host (subcon con) (b0 # b1 # rest) = Inr (k, rest)
              \<and> Enum_parse host con (b0 # b1 # rest) =
                    Inr (if k \<in> set (map snd (mapping con))
                         then MappingAdapter_decode (mapping con) k else Num k, rest))
       \<and> (0 \<le> n \<and> n < 65536 \<and> n \<notin> set (map snd (mapping con)) \<longrightarrow>
            (\<exists>bs. FormatField_build host (subcon con) (Num n) = Inr bs \<and> length bs = 2
                 \<and> Enum_parse host con (bs @ rest) = Inr (Num n, rest)))
       \<and> (s \<notin> set (map fst (mapping con)) \<longrightarrow> Enum_build host con (Str s) = Inl FieldError)"
proof -
  have "\<exists>canonical. bind_error (switch_endian le be ULInt16 UBInt16 UNInt16)
             (\<lambda>sc. Enum_call sc canonical vendor) = Inr con"
    using assms
    by (auto simp: OperationCode_def ResponseCode_def EventCode_def PropertyCode_def
        ObjectFormatCode_def)
  then have "\<exists>e m. con = Enum (FormatField e 2) m"
    using code_table_Inr by blast
  then obtain e m where con: "con = Enum (FormatField e 2) m" by blast
  let ?k = "unpack (resolve host e) [b0, b1]"
  have dec: "MappingAdapter_decode m ?k = Num ?k" if "?k \<notin> set (map snd m)"
    using map_of_reverse_table_None [OF that] by (simp add: MappingAdapter_decode_def)
  have a: "\<exists>k. 0 \<le> k \<and> k < 65536
              \<and> FormatField_parse host (subcon con) (b0 # b1 # rest) = Inr (k, rest)
              \<and> Enum_parse host con (b0 # b1 # rest) =
                    Inr (if k \<in> set (map snd (mapping con))
                         then MappingAdapter_decode (mapping con) k else Num k, rest)"
  proof (intro exI [of _ ?k] conjI)
    show "0 \<le> ?k" and "?k < 65536"
      using unpack_two_bytes_range [of "resolve host e" b0 b1] by simp_all
    show "FormatField_parse host (subcon con) (b0 # b1 # rest) = Inr (?k, rest)"
      by (simp add: con)
    show "Enum_parse host con (b0 # b1 # rest) =
            Inr (if ?k \<in> set (map snd (mapping con))
                 then MappingAdapter_decode (mapping con) ?k else Num ?k, rest)"
      using dec by (simp add: con)
  qed
  have b: "\<exists>bs. FormatField_build host (subcon con) (Num n) = Inr bs \<and> length bs = 2
                 \<and> Enum_parse host con (bs @ rest) = Inr (Num n, rest)"
    if "0 \<le> n" "n < 65536" "n \<notin> set (map snd (mapping con))"
  proof -
    have miss: "n \<notin> set (map snd m)" using that(3) by (simp add: con)
    show ?thesis
      unfolding con
      using Enum_decode_miss [OF that(1,2) miss, of host e rest]
      by (simp del: FormatField_build.simps FormatField_parse.simps Enum_parse.simps)
  qed
  have c: "Enum_build host con (Str s) = Inl FieldError"
    if "s \<notin> set (map fst (mapping con))"
    using that Enum_encode_miss [of s m host "FormatField e 2"] by (simp add: con)
  show ?thesis
    using a b c by blast
qed

theorem code_table_miss_witness:
  "OperationCode \<in> {OperationCode, ResponseCode, EventCode, PropertyCode, ObjectFormatCode}
   \<and> OperationCode False True [] = Inr (Enum UBInt16 OperationCode_names)
   \<and> 0x19FF \<notin> set (map snd (mapping (Enum UBInt16 OperationCode_names)))
   \<and> Enum_parse LSB_first (Enum UBInt16 OperationCode_names) [0x19, 0xFF] = Inr (Num 0x19FF, [])
   \<and> ''Bogus'' \<notin> set (map fst (mapping (Enum UBInt16 OperationCode_names)))
   \<and> Enum_build LSB_first (Enum UBInt16 OperationCode_names) (Str ''Bogus'') = Inl FieldError"
proof -
  let ?con = "Enum UBInt16 OperationCode_names"
  have h1: "OperationCode \<in> {OperationCode, ResponseCode, EventCode, PropertyCode, ObjectFormatCode}"
    by simp
  have h2: "OperationCode False True [] = Inr ?con"
    by (simp add: OperationCode_def switch_endian_def)
  have h3: "0x19FF \<notin> set (map snd (mapping ?con))"
    by (simp add: OperationCode_names_def)
  have h4: "''Bogus'' \<notin> set (map fst (mapping ?con))"
    by (simp add: OperationCode_names_def)
  have bytes: "FormatField_build LSB_first (subcon ?con) (Num 0x19FF) = Inr [0x19, 0xFF]"
    by (simp add: UBInt16_def pack_def numeral_2_eq_2)
  from code_table_miss [OF h1 h2, of LSB_first "0x19" "0xFF" "[]" "0x19FF" "''Bogus''"] h3 h4 bytes
  have "Enum_parse LSB_first ?con [0x19, 0xFF] = Inr (Num 0x19FF, [])"
    and "Enum_build LSB_first ?con (Str ''Bogus'') = Inl FieldError"
    by auto
  with h1 h2 h3 h4 show ?thesis by blast
qed

lemma Enum_roundtrip:
  assumes d: "distinct (map snd m)"
    and r: "list_all (\<lambda>(name, c). 0 \<le> c \<and> c < 65536) m"
    and wf: "case v of Str s \<Rightarrow> s \<in> set (map fst m)
                     | Num n \<Rightarrow> 0 \<le> n \<and> n < 65536 \<and> n \<notin> set (map snd m)"
  shows "\<exists>bs. Enum_build host (Enum (FormatField e 2) m) v = Inr bs
            \<and> (\<forall>rest. Enum_parse host (Enum (FormatField e 2) m) (bs @ rest) = Inr (v, rest))"
proof (cases v)
  case (Num n)
  then have n: "0 \<le> n" "n < 65536" "n \<notin> set (map snd m)"
    using wf by simp_all
  show ?thesis
    using Enum_decode_miss [OF n, of host e] unfolding Num
    by (simp del: FormatField_build.simps FormatField_parse.simps Enum_parse.simps)
next
  case (Str s)
  then have "s \<in> set (map fst m)" using wf by simp
  then obtain c where look: "map_of m s = Some c"
    by (metis map_of_eq_None_iff not_Some_eq set_map)
  then have mem: "(s, c) \<in> set m" by (rule map_of_SomeD)
  then have c: "0 \<le> c" "c < 256 ^ 2"
    using r by (auto simp: list_all_iff)
  have dec: "MappingAdapter_decode m c = Str s"
    using map_of_reverse_table [OF d look] by (simp add: MappingAdapter_decode_def)
  have b: "Enum_build host (Enum (FormatField e 2) m) (Str s) = Inr (pack (resolve host e) 2 c)"
    using FormatField_build_ok [OF c, of host e] look
    by (simp del: FormatField_build.simps)
  have p: "Enum_parse host (Enum (FormatField e 2) m) (pack (resolve host e) 2 c @ rest)
             = Inr (Str s, rest)" for rest
    using FormatField_parse_pack [OF c, of host e rest] dec
    by (simp del: FormatField_parse.simps)
  show ?thesis
    unfolding Str using b p by blast
qed

lemma Array_roundtrip:
  assumes "length xs = count" and "list_all (\<lambda>p. 0 \<le> p \<and> p < 2 ^ 32) xs"
  shows "\<exists>bs. Array_build count (BitField_build (BitField 32 sw)) xs = Inr bs
            \<and> (\<forall>rest. Array_parse count (BitField_parse (BitField 32 sw)) (bs @ rest)
                  = Inr (xs, rest))"
proof -
  have b: "list_all (\<lambda>x. BitField_build (BitField 32 sw) x = Inr (bits32 sw x)) xs"
    using assms(2) BitField_build_ok [of _ sw]
    by (simp add: list_all_iff del: BitField_build.simps)
  have p: "list_all (\<lambda>x. \<forall>rest. BitField_parse (BitField 32 sw) (bits32 sw x @ rest)
             = Inr (x, rest)) xs"
    using assms(2) BitField_parse_bits32 [of _ sw]
    by (simp add: list_all_iff del: BitField_parse.simps)
  have b': "Array_build count (BitField_build (BitField 32 sw)) xs
              = Inr (concat (map (bits32 sw) xs))"
    using build_each_ok [OF b] assms(1)
    by (simp add: Array_build_def del: BitField_build.simps)
  have p': "Array_parse count (BitField_parse (BitField 32 sw))
              (concat (map (bits32 sw) xs) @ rest) = Inr (xs, rest)" for rest
    using parse_each_ok [OF p, of count 0 rest] assms(1)
    by (simp add: Array_parse_def del: BitField_parse.simps)
  show ?thesis
    using b' p' by blast
qed

lemma Struct_roundtrip:
  assumes con: "code_con con = Enum (FormatField e1 2) m" "sid_con con = FormatField e2 4"
      "tid_con con = FormatField e3 4" "param_con con = BitField 32 sw"
    and d: "distinct (map snd m)"
    and r: "list_all (\<lambda>(name, c). 0 \<le> c \<and> c < 65536) m"
    and wf: "well_formed con obj"
  shows "\<exists>data. Struct_build host con obj = Inr data
            \<and> (\<forall>rest. Struct_parse host con (data @ rest) = Inr (obj, rest))"
proof -
  have wc: "case Code obj of Str s \<Rightarrow> s \<in> set (map fst m)
                     | Num n \<Rightarrow> 0 \<le> n \<and> n < 65536 \<and> n \<notin> set (map snd m)"
    using wf by (auto simp: well_formed_def con split: pyval.splits)
  obtain b1 where b1: "Enum_build host (code_con con) (Code obj) = Inr b1"
      "\<And>rest. Enum_parse host (code_con con) (b1 @ rest) = Inr (Code obj, rest)"
    using Enum_roundtrip [OF d r wc, of host e1] unfolding con by blast
  have s: "0 \<le> SessionID obj" "SessionID obj < 256 ^ 4"
    and t: "0 \<le> TransactionID obj" "TransactionID obj < 256 ^ 4"
    using wf by (simp_all add: well_formed_def)
  let ?b2 = "pack (resolve host e2) 4 (SessionID obj)"
  let ?b3 = "pack (resolve host e3) 4 (TransactionID obj)"
  note b2 = FormatField_build_ok [OF s, of host e2]
    FormatField_parse_pack [OF s, of host e2]
  note b3 = FormatField_build_ok [OF t, of host e3]
    FormatField_parse_pack [OF t, of host e3]
  have "length (Parameter obj) = param_count con"
    and "list_all (\<lambda>p. 0 \<le> p \<and> p < 2 ^ 32) (Parameter obj)"
    using wf by (simp_all add: well_formed_def)
  then obtain b4 where b4:
      "Array_build (param_count con) (BitField_build (param_con con)) (Parameter obj) = Inr b4"
      "\<And>rest. Array_parse (param_count con) (BitField_parse (param_con con)) (b4 @ rest)
         = Inr (Parameter obj, rest)"
    using Array_roundtrip [of "Parameter obj" "param_count con" sw] unfolding con by blast
  have build: "Struct_build host con obj = Inr (b1 @ ?b2 @ ?b3 @ b4)"
    by (simp add: Struct_build_def b1(1) b2(1) b3(1) b4(1) con(2,3)
        del: FormatField_build.simps)
  have parse: "Struct_parse host con ((b1 @ ?b2 @ ?b3 @ b4) @ rest) = Inr (obj, rest)" for rest
    by (simp add: Struct_parse_def b1(2) b2(2) b3(2) b4(2) con(2,3)
        del: FormatField_parse.simps)
  show ?thesis
    using build parse by blast
qed

lemma OperationCode_names_ok:
  "distinct (map snd OperationCode_names)"
  "list_all (\<lambda>(name, c). 0 \<le> c \<and> c < 65536) OperationCode_names"
  by (simp_all add: OperationCode_names_def)

lemma ResponseCode_names_ok:
  "distinct (map snd ResponseCode_names)"
  "list_all (\<lambda>(name, c). 0 \<le> c \<and> c < 65536) ResponseCode_names"
  by (simp_all add: ResponseCode_names_def)

lemma EventCode_names_ok:
  "distinct (map snd EventCode_names)"
  "list_all (\<lambda>(name, c). 0 \<le> c \<and> c < 65536) EventCode_names"
  by (simp_all add: EventCode_names_def)

lemma frame_shape:
  assumes "kind \<in> {Operation, Response, Event}" and "kind le be = Inr con"
  shows "\<exists>e1 e2 e3 sw m. code_con con = Enum (FormatField e1 2) m
           \<and> sid_con con = FormatField e2 4 \<and> tid_con con = FormatField e3 4
           \<and> param_con con = BitField 32 sw
           \<and> distinct (map snd m) \<and> list_all (\<lambda>(name, c). 0 \<le> c \<and> c < 65536) m"
proof -
  have le_be: "\<not> (le \<and> be)"
    using assms
    by (auto simp: Operation_def Response_def Event_def Struct_frame_def OperationCode_def
        ResponseCode_def EventCode_def switch_endian_def)
  consider "kind = Operation" | "kind = Response" | "kind = Event"
    using assms(1) by auto
  then show ?thesis
  proof cases
    case 1
    then show ?thesis
      using assms(2) le_be OperationCode_names_ok
      by (cases le; cases be)
        (auto simp: Operation_def Struct_frame_def OperationCode_def SessionID_con_def
          TransactionID_con_def Parameter_con_def switch_endian_def ULInt16_def UBInt16_def
          UNInt16_def ULInt32_def UBInt32_def UNInt32_def)
  next
    case 2
    then show ?thesis
      using assms(2) le_be ResponseCode_names_ok
      by (cases le; cases be)
        (auto simp: Response_def Struct_frame_def ResponseCode_def SessionID_con_def
          TransactionID_con_def Parameter_con_def switch_endian_def ULInt16_def UBInt16_def
          UNInt16_def ULInt32_def UBInt32_def UNInt32_def)
  next
    case 3
    then show ?thesis
      using assms(2) le_be EventCode_names_ok
      by (cases le; cases be)
        (auto simp: Event_def Struct_frame_def EventCode_def SessionID_con_def
          TransactionID_con_def Parameter_con_def switch_endian_def ULInt16_def UBInt16_def
          UNInt16_def ULInt32_def UBInt32_def UNInt32_def)
  qed
qed

text \<open>
  C4. For each of the three frame kinds, each byte order selection that the
  constructor accepts and each machine byte order: a well-formed frame is encoded, and
  decoding the bytes with the same codec gives the frame back.
\<close>

theorem frame_roundtrip:
  assumes "kind \<in> {Operation, Response, Event}" and "kind le be = Inr con"
    and "well_formed con obj"
  shows "\<exists>data. build host con obj = Inr data \<and> parse host con data = Inr obj"
proof -
  obtain e1 e2 e3 sw m where shape: "code_con con = Enum (FormatField e1 2) m"
      "sid_con con = FormatField e2 4" "tid_con con = FormatField e3 4"
      "param_con con = BitField 32 sw"
      "distinct (map snd m)" "list_all (\<lambda>(name, c). 0 \<le> c \<and> c < 65536) m"
    using frame_shape [OF assms(1,2)] by blast
  obtain data where data: "Struct_build host con obj = Inr data"
      "\<And>rest. Struct_parse host con (data @ rest) = Inr (obj, rest)"
    using Struct_roundtrip [OF shape assms(3), of host] by blast
  have "parse host con data = Inr obj"
    using data(2) [of "[]"] by (simp add: parse_def)
  with data(1) show ?thesis
    by (auto simp: build_def)
qed

lemma Operation_big: "Operation False True =
    Inr \<lparr>code_con = Enum UBInt16 OperationCode_names, sid_con = UBInt32, tid_con = UBInt32,
         param_count = 5, param_con = BitField 32 False\<rparr>"
  by (simp add: Operation_def Struct_frame_def OperationCode_def SessionID_con_def
      TransactionID_con_def Parameter_con_def switch_endian_def)



theorem frame_roundtrip_witness:
  "Operation \<in> {Operation, Response, Event}
   \<and> Operation False True =
       Inr \<lparr>code_con = Enum UBInt16 OperationCode_names, sid_con = UBInt32, tid_con = UBInt32,
            param_count = 5, param_con = BitField 32 False\<rparr>
   \<and> well_formed
        \<lparr>code_con = Enum UBInt16 OperationCode_names, sid_con = UBInt32, tid_con = UBInt32,
            param_count = 5, param_con = BitField 32 False\<rparr>
        \<lparr>Code = Str ''OpenSession'', SessionID = 0, TransactionID = 0,
         Parameter = [1, 0, 0, 0, 0]\<rparr>
   \<and> (\<exists>data.
        build MSB_first
          \<lparr>code_con = Enum UBInt16 OperationCode_names, sid_con = UBInt32, tid_con = UBInt32,
            param_count = 5, param_con = BitField 32 False\<rparr>
          \<lparr>Code = Str ''OpenSession'', SessionID = 0, TransactionID = 0,
           Parameter = [1, 0, 0, 0, 0]\<rparr> = Inr data
        \<and> parse MSB_first
          \<lparr>code_con = Enum UBInt16 OperationCode_names, sid_con = UBInt32, tid_con = UBInt32,
            param_count = 5, param_con = BitField 32 False\<rparr> data
          = Inr \<lparr>Code = Str ''OpenSession'', SessionID = 0, TransactionID = 0,
                 Parameter = [1, 0, 0, 0, 0]\<rparr>)"
proof -
  let ?con = "\<lparr>code_con = Enum UBInt16 OperationCode_names, sid_con = UBInt32,
      tid_con = UBInt32, param_count = 5, param_con = BitField 32 False\<rparr>"
  let ?obj = "\<lparr>Code = Str ''OpenSession'', SessionID = 0, TransactionID = 0,
      Parameter = [1, 0, 0, 0, 0]\<rparr>"
  have h1: "Operation \<in> {Operation, Response, Event}" by simp
  have h3: "well_formed ?con ?obj"
    by (simp add: well_formed_def OperationCode_names_def)
  show ?thesis
    using frame_roundtrip [OF h1 Operation_big h3, of MSB_first] h1 Operation_big h3
    by blast
qed



lemma length_bits32 [simp]: "length (bits32 sw n) = 32"
  by (simp add: bits32_def)








lemma unpack_one_byte: "unpack order [n] = uint n"
  by (cases order) (simp_all add: unpack_def)

text \<open>
  What the code's \<open>PTPString\<close> decoding does with the stream: it reads one length byte
  with value N and takes exactly N bytes of payload, which it decodes as UTF-16 text;
  the rest of the stream starts N bytes after the length byte. With fewer than N bytes
  left, or no length byte, decoding fails with \<open>FieldError\<close>.
\<close>

lemma PTPString_parse_consumes_bytes:
  assumes "PTPString le be = Inr ps"
  shows "PascalString_parse host ps [] = Inl FieldError
       \<and> PascalString_parse host ps (n # payload) =
           (if length payload < unat n then Inl FieldError
            else bind_error (utf16_decode host (take (unat n) payload))
                   (\<lambda>txt. Inr (txt, drop (unat n) payload)))"
proof -
  obtain length_field where lf: "switch_endian le be ULInt8 UBInt8 UNInt8 = Inr length_field"
    and ps: "ps = PascalString length_field"
    using assms by (auto simp: PTPString_def dest!: bind_error_Inr)
  obtain e where e: "length_field = FormatField e 1"
    using switch_endian_Inr [OF lf]
    by (auto simp: ULInt8_def UBInt8_def UNInt8_def split: if_splits)
  show ?thesis
    by (simp add: ps e unpack_one_byte)
qed

lemma PTPString_parse_consumes_bytes_example:
  "PTPString False False = Inr (PascalString UNInt8)
   \<and> PascalString_parse LSB_first (PascalString UNInt8) [4, 0x61, 0, 0x62, 0, 9]
       = Inr ([0x61, 0x62], [9])"
proof -
  have h: "PTPString False False = Inr (PascalString UNInt8)"
    by (simp add: PTPString_def switch_endian_def)
  have d: "utf16_decode LSB_first [0x61, 0, 0x62, 0] = Inr [0x61, 0x62]"
    by (simp add: utf16_decode_def)
  show ?thesis
    using PTPString_parse_consumes_bytes [OF h, of LSB_first 4 "[0x61, 0, 0x62, 0, 9]"] h d
    by simp
qed

text \<open>
  C8. The claim is what a PTP string is: the length byte counts UTF-16 units. The code
  takes the length byte as a number of bytes. After the length byte 2 and two units
  (four bytes) it consumes two bytes, gives a text of one unit and leaves the second
  unit in the stream, where the claim has it consume 2 * 2 bytes and give both units.
  A string whose length byte counts its units (5, then four letters and a null unit,
  ten bytes) is not decoded at all: five bytes are taken, which is no whole number of
  units, and the codec raises.
\<close>

theorem PTPString_unit_count_evaluation:
  "PTPString False False = Inr (PascalString UNInt8)
   \<and> PascalString_parse LSB_first (PascalString UNInt8) [2, 0x61, 0, 0x62, 0]
       = Inr ([0x61], [0x62, 0])
   \<and> [0x62, 0] \<noteq> drop (2 * 2) [0x61, 0, 0x62, 0 :: byte]
   \<and> PascalString_parse LSB_first (PascalString UNInt8)
         [5, 0x46, 0, 0x75, 0, 0x6A, 0, 0x69, 0, 0, 0] = Inl UnicodeError"
  by (simp add: PTPString_def switch_endian_def UNInt8_def unpack_def utf16_decode_def)

text \<open>
  C7. The codec built by \<^verbatim>\<open>DeviceInfo(_be_=True)\<close>: the four integers are little-endian
  fields, the length prefixes of the strings and of the arrays are native fields, and
  only the elements of the arrays are big-endian. So the standard version 100 is
  written 64 00 on either machine (big-endian is 00 64), the big-endian bytes 00 64
  are read as 0x6400, and on a little-endian machine the array of one operation code is
  written 01 00 00 00 10 01: the length little-endian, the element big-endian. The
  last equation is a whole descriptor built on a little-endian machine.
\<close>

theorem DeviceInfo_big_endian_evaluation:
  "DeviceInfo False True =
     Inr \<lparr>StandardVersion_con = ULInt16,
          VendorExtensionID_con = ULInt32,
          VendorExtensionVersion_con = ULInt16,
          VendorExtensionDesc_con = PascalString UNInt8,
          FunctionalMode_con = ULInt16,
          OperationSupported_con = PTPArray_con UNInt32 (Enum UBInt16 OperationCode_names),
          EventsSupported_con = PTPArray_con UNInt32 (Enum UBInt16 EventCode_names),
          DevicePropertiesSupported_con = PTPArray_con UNInt32 (Enum UBInt16 PropertyCode_names),
          CaptureFormats_con = PTPArray_con UNInt32 (Enum UBInt16 ObjectFormatCode_names),
          Manufacturer_con = PascalString UNInt8,
          Model_con = PascalString UNInt8,
          DeviceVersion_con = PascalString UNInt8,
          SerialNumber_con = PascalString UNInt8\<rparr>
   \<and> FormatField_build LSB_first ULInt16 (Num 0x0064) = Inr [0x64, 0x00]
   \<and> FormatField_build MSB_first ULInt16 (Num 0x0064) = Inr [0x64, 0x00]
   \<and> FormatField_build LSB_first UBInt16 (Num 0x0064) = Inr [0x00, 0x64]
   \<and> FormatField_parse LSB_first ULInt16 [0x00, 0x64] = Inr (0x6400, [])
   \<and> FormatField_build LSB_first UNInt32 (Num 1) = Inr [1, 0, 0, 0]
   \<and> PTPArray_build LSB_first (PTPArray_con UNInt32 (Enum UBInt16 OperationCode_names))
        (1, [Str ''GetDeviceInfo'']) = Inr [1, 0, 0, 0, 0x10, 0x01]
   \<and> bind_error (DeviceInfo False True) (\<lambda>con. DeviceInfo_build LSB_first con
        \<lparr>StandardVersion = 100, VendorExtensionID = 6, VendorExtensionVersion = 100,
         VendorExtensionDesc = [], FunctionalMode = 0,
         OperationSupported = (1, [Str ''GetDeviceInfo'']),
         EventsSupported = (0, []), DevicePropertiesSupported = (0, []),
         CaptureFormats = (0, []),
         Manufacturer = [], Model = [], DeviceVersion = [], SerialNumber = []\<rparr>)
       = Inr [100, 0, 6, 0, 0, 0, 100, 0, 2, 255, 254, 0, 0, 1, 0, 0, 0, 16, 1,
              0, 0, 0, 0, 0, 0, 0, 0, 0, 0, 0, 0,
              2, 255, 254, 2, 255, 254, 2, 255, 254, 2, 255, 254]"
proof -
  have con: "DeviceInfo False True =
     Inr \<lparr>StandardVersion_con = ULInt16,
          VendorExtensionID_con = ULInt32,
          VendorExtensionVersion_con = ULInt16,
          VendorExtensionDesc_con = PascalString UNInt8,
          FunctionalMode_con = ULInt16,
          OperationSupported_con = PTPArray_con UNInt32 (Enum UBInt16 OperationCode_names),
          EventsSupported_con = PTPArray_con UNInt32 (Enum UBInt16 EventCode_names),
          DevicePropertiesSupported_con = PTPArray_con UNInt32 (Enum UBInt16 PropertyCode_names),
          CaptureFormats_con = PTPArray_con UNInt32 (Enum UBInt16 ObjectFormatCode_names),
          Manufacturer_con = PascalString UNInt8,
          Model_con = PascalString UNInt8,
          DeviceVersion_con = PascalString UNInt8,
          SerialNumber_con = PascalString UNInt8\<rparr>"
    by (simp add: DeviceInfo_def PTPString_def PTPArray_def OperationCode_def EventCode_def
        PropertyCode_def ObjectFormatCode_def switch_endian_def)
  have i1: "FormatField_build LSB_first ULInt16 (Num 0x0064) = Inr [0x64, 0x00]"
    by (simp add: ULInt16_def pack_def numeral_2_eq_2)
  have i2: "FormatField_build MSB_first ULInt16 (Num 0x0064) = Inr [0x64, 0x00]"
    by (simp add: ULInt16_def pack_def numeral_2_eq_2)
  have i3: "FormatField_build LSB_first UBInt16 (Num 0x0064) = Inr [0x00, 0x64]"
    by (simp add: UBInt16_def pack_def numeral_2_eq_2)
  have i4: "FormatField_parse LSB_first ULInt16 [0x00, 0x64] = Inr (0x6400, [])"
    by (simp add: ULInt16_def unpack_def)
  have i5: "FormatField_build LSB_first UNInt32 (Num 1) = Inr [1, 0, 0, 0]"
    by (simp add: UNInt32_def pack_def eval_nat_numeral)
  have el: "Enum_build LSB_first (Enum UBInt16 OperationCode_names) (Str ''GetDeviceInfo'')
      = Inr [0x10, 0x01]"
    by (simp add: UBInt16_def OperationCode_names_def pack_def numeral_2_eq_2)
  have i6: "PTPArray_build LSB_first (PTPArray_con UNInt32 (Enum UBInt16 OperationCode_names))
        (1, [Str ''GetDeviceInfo'']) = Inr [1, 0, 0, 0, 0x10, 0x01]"
    by (simp add: i5 el Array_build_def del: Enum_build.simps FormatField_build.simps)
  have i0: "FormatField_build LSB_first UNInt32 (Num 0) = Inr [0, 0, 0, 0]"
    by (simp add: UNInt32_def pack_def eval_nat_numeral)
  have v16: "FormatField_build LSB_first ULInt16 (Num 0) = Inr [0, 0]"
    by (simp add: ULInt16_def pack_def numeral_2_eq_2)
  have v32: "FormatField_build LSB_first ULInt32 (Num 6) = Inr [6, 0, 0, 0]"
    by (simp add: ULInt32_def pack_def eval_nat_numeral)
  have empty_array: "PTPArray_build LSB_first (PTPArray_con UNInt32 el) (0, []) = Inr [0, 0, 0, 0]"
    for el
    by (simp add: i0 Array_build_def del: FormatField_build.simps)
  have empty_string: "PascalString_build LSB_first (PascalString UNInt8) [] = Inr [2, 255, 254]"
    by (simp add: utf16_encode_def UNInt8_def pack_def)
  have i7: "DeviceInfo_build LSB_first
       \<lparr>StandardVersion_con = ULInt16,
          VendorExtensionID_con = ULInt32,
          VendorExtensionVersion_con = ULInt16,
          VendorExtensionDesc_con = PascalString UNInt8,
          FunctionalMode_con = ULInt16,
          OperationSupported_con = PTPArray_con UNInt32 (Enum UBInt16 OperationCode_names),
          EventsSupported_con = PTPArray_con UNInt32 (Enum UBInt16 EventCode_names),
          DevicePropertiesSupported_con = PTPArray_con UNInt32 (Enum UBInt16 PropertyCode_names),
          CaptureFormats_con = PTPArray_con UNInt32 (Enum UBInt16 ObjectFormatCode_names),
          Manufacturer_con = PascalString UNInt8,
          Model_con = PascalString UNInt8,
          DeviceVersion_con = PascalString UNInt8,
          SerialNumber_con = PascalString UNInt8\<rparr>
        \<lparr>StandardVersion = 100, VendorExtensionID = 6, VendorExtensionVersion = 100,
         VendorExtensionDesc = [], FunctionalMode = 0,
         OperationSupported = (1, [Str ''GetDeviceInfo'']),
         EventsSupported = (0, []), DevicePropertiesSupported = (0, []),
         CaptureFormats = (0, []),
         Manufacturer = [], Model = [], DeviceVersion = [], SerialNumber = []\<rparr>
       = Inr [100, 0, 6, 0, 0, 0, 100, 0, 2, 255, 254, 0, 0, 1, 0, 0, 0, 16, 1,
              0, 0, 0, 0, 0, 0, 0, 0, 0, 0, 0, 0,
              2, 255, 254, 2, 255, 254, 2, 255, 254, 2, 255, 254]"
    by (simp add: DeviceInfo_build_def i1 v16 v32 i6 empty_array empty_string
        del: FormatField_build.simps PTPArray_build.simps PascalString_build.simps)
  show ?thesis
    using con i1 i2 i3 i4 i5 i6 i7 by (simp del: FormatField_build.simps
      FormatField_parse.simps PTPArray_build.simps)
qed

end
